theory Spec2Isabelle
  imports Complex_Main
begin

section \<open>Python and numpy values\<close>

text \<open>
  The notebook raises no exception of its own; every failure comes from a primitive of
  Python or numpy. \<open>BadReference\<close> stands for a reference that does not point to an
  object of the expected kind, which a running Python program never holds.
\<close>

datatype py_error = TypeError | ValueError | IndexError | BadReference

text \<open>
  A two-dimensional numpy array: its shape and its rows. numpy keeps the shape with the
  array, so that an array with no rows still has a column count.
\<close>

record 'a ndarray =
  shape0 :: nat
  shape1 :: nat
  rows :: "'a list list"

definition wf_ndarray :: "'a ndarray \<Rightarrow> bool" where
  "wf_ndarray A \<longleftrightarrow>
     length (rows A) = shape0 A \<and> (\<forall>r \<in> set (rows A). length r = shape1 A)"

definition entry :: "'a ndarray \<Rightarrow> nat \<Rightarrow> nat \<Rightarrow> 'a" where
  "entry A i j = rows A ! i ! j"


section \<open>Floating-point values\<close>

text \<open>
  The notebook tests floats for NaN and for finiteness, so a float is a finite number,
  one of the two infinities, or NaN. Finite values are real numbers: the rounding of
  sums is not modelled. Equality of the datatype stands for \<^verbatim>\<open>==\<close> on non-NaN
  values; comparisons with NaN are written out where the code makes them.
\<close>

datatype npfloat = Fin real | PInf | NInf | NaN

fun fadd :: "npfloat \<Rightarrow> npfloat \<Rightarrow> npfloat" where
  "fadd (Fin x) (Fin y) = Fin (x + y)"
| "fadd NaN _ = NaN"
| "fadd _ NaN = NaN"
| "fadd PInf NInf = NaN"
| "fadd NInf PInf = NaN"
| "fadd PInf _ = PInf"
| "fadd _ PInf = PInf"
| "fadd NInf _ = NInf"
| "fadd _ NInf = NInf"


fun isfinite :: "npfloat \<Rightarrow> bool" where
  "isfinite (Fin x) = True"
| "isfinite _ = False"

text \<open>\<^verbatim>\<open>x != 0\<close> on a float: true for NaN and the infinities.\<close>

definition fne0 :: "npfloat \<Rightarrow> bool" where
  "fne0 x \<longleftrightarrow> x \<noteq> Fin 0"

text \<open>
  \<^verbatim>\<open>np.nan_to_num\<close>: NaN becomes 0, and an infinity the largest finite value of the
  array's dtype with its sign. That value is the parameter \<open>fmax\<close>: \<open>float32_max\<close>
  for a float32 array, such as the columns of a target pixel file, and \<open>float64_max\<close>
  for a float64 array.
\<close>

fun nan_to_num :: "real \<Rightarrow> npfloat \<Rightarrow> npfloat" where
  "nan_to_num fmax NaN = Fin 0"
| "nan_to_num fmax PInf = Fin fmax"
| "nan_to_num fmax NInf = Fin (- fmax)"
| "nan_to_num fmax (Fin x) = Fin x"

definition float32_max :: real where
  "float32_max = (2 ^ 24 - 1) * 2 ^ 104"



section \<open>Element types of arrays\<close>

text \<open>
  The arrays of a design matrix hold floats or integers (int64). Converting an array to
  float64, as numpy does when it stores into a float64 array or joins arrays of
  different element types, keeps a float and rounds an integer to the nearest float64,
  ties to even: integers up to \<open>2 ^ 53\<close> in magnitude are kept, larger ones are rounded
  to a multiple of the spacing \<open>ulp64\<close> of the floats around them.
\<close>

datatype np_matrix = IntMatrix "int ndarray" | FloatMatrix "npfloat ndarray"

datatype np_vector = IntVector "int list" | FloatVector "npfloat list"

definition ulp64 :: "nat \<Rightarrow> nat" where
  "ulp64 a =
     (if a < 2 ^ 53 then 1 else if a < 2 ^ 54 then 2 else if a < 2 ^ 55 then 4
      else if a < 2 ^ 56 then 8 else if a < 2 ^ 57 then 16 else if a < 2 ^ 58 then 32
      else if a < 2 ^ 59 then 64 else if a < 2 ^ 60 then 128 else if a < 2 ^ 61 then 256
      else if a < 2 ^ 62 then 512 else 1024)"

definition round_to_multiple :: "nat \<Rightarrow> nat \<Rightarrow> nat" where
  "round_to_multiple a u =
     (let q = a div u; r = a mod u
      in if 2 * r < u \<or> (2 * r = u \<and> even q) then q * u else (q + 1) * u)"

definition float64_of_int :: "int \<Rightarrow> npfloat" where
  "float64_of_int n =
     Fin (of_int (sgn n * int (round_to_multiple (nat \<bar>n\<bar>) (ulp64 (nat \<bar>n\<bar>)))))"

fun mshape0 :: "np_matrix \<Rightarrow> nat" where
  "mshape0 (IntMatrix A) = shape0 A"
| "mshape0 (FloatMatrix A) = shape0 A"

fun mshape1 :: "np_matrix \<Rightarrow> nat" where
  "mshape1 (IntMatrix A) = shape1 A"
| "mshape1 (FloatMatrix A) = shape1 A"

fun wf_matrix :: "np_matrix \<Rightarrow> bool" where
  "wf_matrix (IntMatrix A) = wf_ndarray A"
| "wf_matrix (FloatMatrix A) = wf_ndarray A"

fun astype_float64 :: "np_matrix \<Rightarrow> npfloat ndarray" where
  "astype_float64 (FloatMatrix A) = A"
| "astype_float64 (IntMatrix A) =
     \<lparr>shape0 = shape0 A, shape1 = shape1 A, rows = map (map float64_of_int) (rows A)\<rparr>"

fun is_int_vector :: "np_vector \<Rightarrow> bool" where
  "is_int_vector (IntVector v) = True"
| "is_int_vector (FloatVector v) = False"

fun is_float_vector :: "np_vector \<Rightarrow> bool" where
  "is_float_vector (IntVector v) = False"
| "is_float_vector (FloatVector v) = True"

fun int_values :: "np_vector \<Rightarrow> int list" where
  "int_values (IntVector v) = v"
| "int_values (FloatVector v) = []"

fun float_values :: "np_vector \<Rightarrow> npfloat list" where
  "float_values (FloatVector v) = v"
| "float_values (IntVector v) = []"

fun vector_astype_float64 :: "np_vector \<Rightarrow> npfloat list" where
  "vector_astype_float64 (FloatVector v) = v"
| "vector_astype_float64 (IntVector v) = map float64_of_int v"

fun vlength :: "np_vector \<Rightarrow> nat" where
  "vlength (IntVector v) = length v"
| "vlength (FloatVector v) = length v"

section \<open>numpy primitives of vstack\<close>

text \<open>
  \<^verbatim>\<open>np.sum\<close> of a Python list of ints. For a non-empty list the result is an integer; the
  empty list becomes an empty array of the default dtype, and its sum is the float 0.0.
  (An integer sum is an int64; array dimensions are far below its range, so the sum is
  written without wrap-around.)
\<close>

datatype np_scalar = Int64 nat | Float64 real

definition np_sum :: "nat list \<Rightarrow> np_scalar" where
  "np_sum xs = (if xs = [] then Float64 0 else Int64 (sum_list xs))"

text \<open>
  \<^verbatim>\<open>np.zeros((n, m))\<close>: an array of float64 zeros, whatever is stored into it later; a
  float in the shape is a TypeError.
\<close>

fun np_zeros :: "np_scalar \<Rightarrow> np_scalar \<Rightarrow> py_error + npfloat ndarray" where
  "np_zeros (Int64 n) (Int64 m) =
     Inr \<lparr>shape0 = n, shape1 = m, rows = replicate n (replicate m (Fin 0))\<rparr>"
| "np_zeros _ _ = Inl TypeError"

text \<open>
  \<^verbatim>\<open>A[r0:r1, c0:c1] = V\<close> for a value \<open>V\<close> already converted to the element type of
  \<open>A\<close>. numpy clips the slice to the array, and the value must broadcast to the shape of
  the clipped slice: each dimension of \<open>V\<close> is that of the slice, or 1 (then the one row
  or column is repeated); otherwise ValueError.
\<close>

definition setitem_slice ::
  "'a ndarray \<Rightarrow> nat \<Rightarrow> nat \<Rightarrow> nat \<Rightarrow> nat \<Rightarrow> 'a ndarray \<Rightarrow> py_error + 'a ndarray" where
  "setitem_slice A r0 r1 c0 c1 V =
     (let a0 = min r0 (shape0 A); a1 = max a0 (min r1 (shape0 A));
          b0 = min c0 (shape1 A); b1 = max b0 (min c1 (shape1 A))
      in if (shape0 V = a1 - a0 \<or> shape0 V = 1) \<and> (shape1 V = b1 - b0 \<or> shape1 V = 1)
         then Inr (A\<lparr>rows :=
                map (\<lambda>i. if a0 \<le> i \<and> i < a1
                          then take b0 (rows A ! i)
                               @ map (\<lambda>j. entry V (if shape0 V = 1 then 0 else i - a0)
                                                    (if shape1 V = 1 then 0 else j))
                                     [0..<b1 - b0]
                               @ drop b1 (rows A ! i)
                          else rows A ! i)
                    [0..<shape0 A]\<rparr>)
         else Inl ValueError)"

text \<open>
  \<^verbatim>\<open>np.hstack\<close> of a list of one-dimensional arrays; the empty list is a ValueError. The
  result has the common element type of the arrays: integers when all are integer
  arrays, float64 otherwise, and then the integer arrays are converted.
\<close>

definition np_hstack :: "np_vector list \<Rightarrow> py_error + np_vector" where
  "np_hstack vs =
     (if vs = [] then Inl ValueError
      else if list_all is_int_vector vs then Inr (IntVector (concat (map int_values vs)))
      else Inr (FloatVector (concat (map vector_astype_float64 vs))))"

section \<open>The store: design matrices and their arrays\<close>

text \<open>
  \<^verbatim>\<open>lk.DesignMatrix\<close> objects and numpy arrays are mutable Python objects held by
  reference. The store keeps the objects of each kind in a list; a reference is an index
  into it, and allocation appends. A design matrix holds references to its arrays, and
  its \<^verbatim>\<open>shape\<close> is the shape of its \<^verbatim>\<open>X\<close>.
\<close>

type_synonym addr = nat

record DesignMatrix =
  dm_X :: addr
  dm_name :: string
  dm_prior_mu :: addr
  dm_prior_sigma :: addr

record heap =
  objects :: "DesignMatrix list"
  matrices :: "np_matrix list"
  vectors :: "np_vector list"

definition deref :: "'b list \<Rightarrow> addr \<Rightarrow> py_error + 'b" where
  "deref xs a = (if a < length xs then Inr (xs ! a) else Inl BadReference)"

fun map_err :: "('b \<Rightarrow> py_error + 'c) \<Rightarrow> 'b list \<Rightarrow> py_error + 'c list" where
  "map_err f [] = Inr []"
| "map_err f (x # xs) =
     (case f x of Inl e \<Rightarrow> Inl e
      | Inr y \<Rightarrow> (case map_err f xs of Inl e \<Rightarrow> Inl e | Inr ys \<Rightarrow> Inr (y # ys)))"

definition get_X :: "heap \<Rightarrow> addr \<Rightarrow> py_error + np_matrix" where
  "get_X h d =
     (case deref (objects h) d of Inl e \<Rightarrow> Inl e
      | Inr dm \<Rightarrow> deref (matrices h) (dm_X dm))"

definition dm_shape :: "heap \<Rightarrow> addr \<Rightarrow> py_error + (nat \<times> nat)" where
  "dm_shape h d =
     (case get_X h d of Inl e \<Rightarrow> Inl e | Inr A \<Rightarrow> Inr (mshape0 A, mshape1 A))"

definition get_prior_mu :: "heap \<Rightarrow> addr \<Rightarrow> py_error + np_vector" where
  "get_prior_mu h d =
     (case deref (objects h) d of Inl e \<Rightarrow> Inl e
      | Inr dm \<Rightarrow> deref (vectors h) (dm_prior_mu dm))"

definition get_prior_sigma :: "heap \<Rightarrow> addr \<Rightarrow> py_error + np_vector" where
  "get_prior_sigma h d =
     (case deref (objects h) d of Inl e \<Rightarrow> Inl e
      | Inr dm \<Rightarrow> deref (vectors h) (dm_prior_sigma dm))"

definition get_name :: "heap \<Rightarrow> addr \<Rightarrow> py_error + string" where
  "get_name h d =
     (case deref (objects h) d of Inl e \<Rightarrow> Inl e | Inr dm \<Rightarrow> Inr (dm_name dm))"

section \<open>vstack\<close>

text \<open>
  \<^verbatim>\<open>
  def vstack(dms):
      npoints = np.sum([dm.shape[0] for dm in dms])
      ncomps = np.sum([dm.shape[1] for dm in dms])
      X = np.zeros((npoints, ncomps))
      idx = 0
      jdx = 0
      for dm in dms:
          X[idx:idx+dm.shape[0], jdx:jdx+dm.shape[1]] = dm.X
          idx = idx + dm.shape[0]
          jdx = jdx + dm.shape[1]
      prior_mu = np.hstack([dm.prior_mu for dm in dms])
      prior_sigma = np.hstack([dm.prior_sigma for dm in dms])
      name = dms[0].name
      return lk.DesignMatrix(X, name=name, prior_mu=prior_mu, prior_sigma=prior_sigma)
  \<close>
  The function takes the store and the references in \<open>dms\<close>, and returns the store
  it leaves together with the reference to the new design matrix, or the exception
  raised. \<open>x\<close> is the reference of the local array \<open>X\<close>, the float64 array of
  \<^verbatim>\<open>np.zeros\<close>; the slice assignment converts \<^verbatim>\<open>dm.X\<close> to float64 and stores it.
\<close>

definition vstack_step ::
  "heap \<Rightarrow> addr \<Rightarrow> nat \<Rightarrow> nat \<Rightarrow> addr \<Rightarrow> py_error + (heap \<times> nat \<times> nat)" where
  "vstack_step h x idx jdx d =
     (case get_X h d of Inl e \<Rightarrow> Inl e | Inr V \<Rightarrow>
     (case dm_shape h d of Inl e \<Rightarrow> Inl e | Inr (r, c) \<Rightarrow>
     (case deref (matrices h) x of Inl e \<Rightarrow> Inl e
      | Inr (IntMatrix A) \<Rightarrow> Inl BadReference
      | Inr (FloatMatrix A) \<Rightarrow>
     (case setitem_slice A idx (idx + r) jdx (jdx + c) (astype_float64 V) of
        Inl e \<Rightarrow> Inl e
      | Inr A' \<Rightarrow>
        Inr (h\<lparr>matrices := (matrices h)[x := FloatMatrix A']\<rparr>, idx + r, jdx + c)))))"

fun vstack_loop ::
  "heap \<Rightarrow> addr \<Rightarrow> nat \<Rightarrow> nat \<Rightarrow> addr list \<Rightarrow> py_error option \<times> heap" where
  "vstack_loop h x idx jdx [] = (None, h)"
| "vstack_loop h x idx jdx (d # ds) =
     (case vstack_step h x idx jdx d of Inl e \<Rightarrow> (Some e, h)
      | Inr (h', idx', jdx') \<Rightarrow> vstack_loop h' x idx' jdx' ds)"

definition vstack :: "heap \<Rightarrow> addr list \<Rightarrow> (py_error + addr) \<times> heap" where
  "vstack h dms =
     (case map_err (dm_shape h) dms of Inl e \<Rightarrow> (Inl e, h) | Inr shapes \<Rightarrow>
     (case np_zeros (np_sum (map fst shapes)) (np_sum (map snd shapes)) of
        Inl e \<Rightarrow> (Inl e, h)
      | Inr Z \<Rightarrow>
     (let x = length (matrices h); h1 = h\<lparr>matrices := matrices h @ [FloatMatrix Z]\<rparr> in
     (case vstack_loop h1 x 0 0 dms of (Some e, h2) \<Rightarrow> (Inl e, h2) | (None, h2) \<Rightarrow>
     (case map_err (get_prior_mu h2) dms of Inl e \<Rightarrow> (Inl e, h2) | Inr mus \<Rightarrow>
     (case np_hstack mus of Inl e \<Rightarrow> (Inl e, h2) | Inr mu \<Rightarrow>
     (let pm = length (vectors h2); h3 = h2\<lparr>vectors := vectors h2 @ [mu]\<rparr> in
     (case map_err (get_prior_sigma h3) dms of Inl e \<Rightarrow> (Inl e, h3) | Inr sigmas \<Rightarrow>
     (case np_hstack sigmas of Inl e \<Rightarrow> (Inl e, h3) | Inr sigma \<Rightarrow>
     (let ps = length (vectors h3); h4 = h3\<lparr>vectors := vectors h3 @ [sigma]\<rparr> in
     (case dms of [] \<Rightarrow> (Inl IndexError, h4) | d0 # _ \<Rightarrow>
     (case get_name h4 d0 of Inl e \<Rightarrow> (Inl e, h4) | Inr nm \<Rightarrow>
        (Inr (length (objects h4)),
         h4\<lparr>objects := objects h4
              @ [\<lparr>dm_X = x, dm_name = nm, dm_prior_mu = pm,
                   dm_prior_sigma = ps\<rparr>]\<rparr>)))))))))))))"

text \<open>
  The vocabulary of the properties: the arrays and the name of a design matrix in a
  store (\<open>X64_of\<close> is its \<open>X\<close> as float64), the offsets of the blocks, and when a
  reference is to a well-formed design matrix.
\<close>

definition row_offset :: "'a ndarray list \<Rightarrow> nat \<Rightarrow> nat" where
  "row_offset Xs k = sum_list (map shape0 (take k Xs))"

definition col_offset :: "'a ndarray list \<Rightarrow> nat \<Rightarrow> nat" where
  "col_offset Xs k = sum_list (map shape1 (take k Xs))"

definition in_block :: "'a ndarray list \<Rightarrow> nat \<Rightarrow> nat \<Rightarrow> nat \<Rightarrow> bool" where
  "in_block Xs k i j \<longleftrightarrow>
     row_offset Xs k \<le> i \<and> i < row_offset Xs k + shape0 (Xs ! k) \<and>
     col_offset Xs k \<le> j \<and> j < col_offset Xs k + shape1 (Xs ! k)"

fun expected :: "nat \<Rightarrow> nat \<Rightarrow> 'a ndarray list \<Rightarrow> (nat \<Rightarrow> nat \<Rightarrow> 'a) \<Rightarrow> nat \<Rightarrow> nat \<Rightarrow> 'a" where
  "expected idx jdx [] f = f"
| "expected idx jdx (V # Vs) f =
     expected (idx + shape0 V) (jdx + shape1 V) Vs
       (\<lambda>i j. if idx \<le> i \<and> i < idx + shape0 V \<and> jdx \<le> j \<and> j < jdx + shape1 V
              then entry V (i - idx) (j - jdx) else f i j)"

definition X_of :: "heap \<Rightarrow> addr \<Rightarrow> np_matrix" where
  "X_of h d = matrices h ! dm_X (objects h ! d)"

definition X64_of :: "heap \<Rightarrow> addr \<Rightarrow> npfloat ndarray" where
  "X64_of h d = astype_float64 (X_of h d)"

definition prior_mu_of :: "heap \<Rightarrow> addr \<Rightarrow> np_vector" where
  "prior_mu_of h d = vectors h ! dm_prior_mu (objects h ! d)"

definition prior_sigma_of :: "heap \<Rightarrow> addr \<Rightarrow> np_vector" where
  "prior_sigma_of h d = vectors h ! dm_prior_sigma (objects h ! d)"

definition name_of :: "heap \<Rightarrow> addr \<Rightarrow> string" where
  "name_of h d = dm_name (objects h ! d)"

definition wf_dm :: "heap \<Rightarrow> addr \<Rightarrow> bool" where
  "wf_dm h d \<longleftrightarrow>
     d < length (objects h) \<and> dm_X (objects h ! d) < length (matrices h) \<and>
     wf_matrix (X_of h d) \<and>
     dm_prior_mu (objects h ! d) < length (vectors h) \<and>
     dm_prior_sigma (objects h ! d) < length (vectors h)"

text \<open>
  A store with two design matrices of floats, of shapes 2 x 2 and 1 x 3, and a store
  whose first design matrix holds the integer \<open>2 ^ 53 + 1\<close>, which is not a float64.
\<close>

definition bkg_heap :: heap where
  "bkg_heap =
     \<lparr>objects = [\<lparr>dm_X = 0, dm_name = ''bkg'', dm_prior_mu = 0, dm_prior_sigma = 1\<rparr>,
                 \<lparr>dm_X = 1, dm_name = ''spline'', dm_prior_mu = 2, dm_prior_sigma = 3\<rparr>],
      matrices = [FloatMatrix \<lparr>shape0 = 2, shape1 = 2,
                                rows = [[Fin 1, Fin 2], [Fin 3, Fin 4]]\<rparr>,
                  FloatMatrix \<lparr>shape0 = 1, shape1 = 3, rows = [[Fin 5, Fin 6, Fin 7]]\<rparr>],
      vectors = [FloatVector [Fin 10, Fin 11], FloatVector [Fin 12, Fin 13],
                 FloatVector [Fin 14, Fin 15, Fin 16], FloatVector [Fin 17, Fin 18, Fin 19]]\<rparr>"

definition int_heap :: heap where
  "int_heap =
     \<lparr>objects = [\<lparr>dm_X = 0, dm_name = ''counts'', dm_prior_mu = 0, dm_prior_sigma = 1\<rparr>,
                 \<lparr>dm_X = 1, dm_name = ''bkg'', dm_prior_mu = 2, dm_prior_sigma = 3\<rparr>],
      matrices = [IntMatrix \<lparr>shape0 = 1, shape1 = 1, rows = [[9007199254740993]]\<rparr>,
                  FloatMatrix \<lparr>shape0 = 1, shape1 = 1, rows = [[Fin 1]]\<rparr>],
      vectors = [IntVector [9007199254740993], IntVector [1],
                 FloatVector [Fin 0], FloatVector [Fin 1]]\<rparr>"

section \<open>Adding the background back in\<close>

text \<open>
  \<^verbatim>\<open>tpfs_uncorr = [(tpf + np.nan_to_num(tpf.flux_bkg)) for tpf in tpfs]\<close>

  Of a target pixel file the notebook uses the flux and background cubes (cadence, row,
  column) and the pipeline aperture mask. \<^verbatim>\<open>tpf + array\<close> returns a copy of the file
  whose flux is the elementwise sum. Arrays of different shapes make numpy raise
  ValueError; numpy's broadcasting of dimensions of size 1 is left out, since both cubes
  are columns of one file and have one shape.
\<close>

type_synonym cube = "npfloat list list list"

record TargetPixelFile =
  tpf_flux :: cube
  tpf_flux_bkg :: cube
  tpf_pipeline_mask :: "bool ndarray"

definition same_shape :: "cube \<Rightarrow> cube \<Rightarrow> bool" where
  "same_shape a b \<longleftrightarrow> list_all2 (list_all2 (\<lambda>r s. length r = length s)) a b"

definition np_nan_to_num :: "real \<Rightarrow> cube \<Rightarrow> cube" where
  "np_nan_to_num fmax a = map (map (map (nan_to_num fmax))) a"

definition tpf_add :: "TargetPixelFile \<Rightarrow> cube \<Rightarrow> py_error + TargetPixelFile" where
  "tpf_add tpf a =
     (if same_shape (tpf_flux tpf) a
      then Inr (tpf\<lparr>tpf_flux := map2 (map2 (map2 fadd)) (tpf_flux tpf) a\<rparr>)
      else Inl ValueError)"

definition tpfs_uncorr :: "real \<Rightarrow> TargetPixelFile list \<Rightarrow> py_error + TargetPixelFile list" where
  "tpfs_uncorr fmax tpfs =
     map_err (\<lambda>tpf. tpf_add tpf (np_nan_to_num fmax (tpf_flux_bkg tpf))) tpfs"

definition wf_tpf :: "TargetPixelFile \<Rightarrow> bool" where
  "wf_tpf tpf \<longleftrightarrow> same_shape (tpf_flux tpf) (tpf_flux_bkg tpf)"

definition px :: "cube \<Rightarrow> nat \<Rightarrow> nat \<Rightarrow> nat \<Rightarrow> npfloat" where
  "px a t y x = a ! t ! y ! x"

definition in_cube :: "cube \<Rightarrow> nat \<Rightarrow> nat \<Rightarrow> nat \<Rightarrow> bool" where
  "in_cube a t y x \<longleftrightarrow> t < length a \<and> y < length (a ! t) \<and> x < length (a ! t ! y)"

section \<open>Growing the aperture\<close>







section \<open>Pruning the empty spline columns\<close>

text \<open>
  \<^verbatim>\<open>star_dm = lk.DesignMatrix(star_dm.X[:, star_dm.X.sum(axis=0) != 0], name='spline')\<close>

  \<^verbatim>\<open>X.sum(axis=0)\<close> is the vector of column sums (0.0 for a column with no entry), and
  indexing the columns with a boolean vector keeps the columns at its true positions, in
  order.
\<close>

definition np_sum_axis0 :: "npfloat ndarray \<Rightarrow> npfloat list" where
  "np_sum_axis0 A =
     map (\<lambda>j. foldl fadd (Fin 0) (map (\<lambda>i. entry A i j) [0..<shape0 A])) [0..<shape1 A]"

definition select_columns :: "'a ndarray \<Rightarrow> bool list \<Rightarrow> py_error + 'a ndarray" where
  "select_columns A bs =
     (if length bs \<noteq> shape1 A then Inl IndexError
      else let keep = filter (\<lambda>j. bs ! j) [0..<shape1 A]
           in Inr \<lparr>shape0 = shape0 A, shape1 = length keep,
                   rows = map (\<lambda>r. map (\<lambda>j. r ! j) keep) (rows A)\<rparr>)"

definition star_dm_X :: "npfloat ndarray \<Rightarrow> py_error + npfloat ndarray" where
  "star_dm_X A = select_columns A (map fne0 (np_sum_axis0 A))"

definition kept_columns :: "npfloat ndarray \<Rightarrow> nat list" where
  "kept_columns A = filter (\<lambda>j. fne0 (np_sum_axis0 A ! j)) [0..<shape1 A]"

section \<open>Replacing the non-finite flux errors\<close>








text \<open>
  A target pixel file with one cadence of 3 x 3 pixels, one NaN in its background, and
  the centre pixel as its pipeline aperture.
\<close>

definition example_tpf :: TargetPixelFile where
  "example_tpf =
     \<lparr>tpf_flux = [[[Fin 1, Fin 2, Fin 3], [Fin 4, Fin 5, Fin 6], [Fin 7, Fin 8, Fin 9]]],
      tpf_flux_bkg = [[[NaN, Fin 10, Fin 10], [Fin 10, Fin 10, Fin 10], [Fin 10, Fin 10, Fin 10]]],
      tpf_pipeline_mask =
        \<lparr>shape0 = 3, shape1 = 3,
          rows = [[False, False, False], [False, True, False], [False, False, False]]\<rparr>\<rparr>"

text \<open>A spline matrix of two samples and four components, two of them empty.\<close>

definition example_spline :: "npfloat ndarray" where
  "example_spline =
     \<lparr>shape0 = 2, shape1 = 4,
      rows = [[Fin 1, Fin 0, Fin (1/2), Fin 0], [Fin 0, Fin 0, Fin (1/2), Fin 0]]\<rparr>"



lemma setitem_slice_ok:
  assumes "wf_ndarray A" "wf_ndarray V"
    and "r0 + shape0 V \<le> shape0 A" "c0 + shape1 V \<le> shape1 A"
  shows "\<exists>A'. setitem_slice A r0 (r0 + shape0 V) c0 (c0 + shape1 V) V = Inr A'
           \<and> wf_ndarray A' \<and> shape0 A' = shape0 A \<and> shape1 A' = shape1 A
           \<and> (\<forall>i<shape0 A. \<forall>j<shape1 A. entry A' i j =
                 (if r0 \<le> i \<and> i < r0 + shape0 V \<and> c0 \<le> j \<and> j < c0 + shape1 V
                  then entry V (i - r0) (j - c0) else entry A i j))"
proof -
  define row where "row = (\<lambda>i. if r0 \<le> i \<and> i < r0 + shape0 V
                   then take c0 (rows A ! i)
                        @ map (\<lambda>j. entry V (if shape0 V = 1 then 0 else i - r0)
                                             (if shape1 V = 1 then 0 else j))
                              [0..<shape1 V]
                        @ drop (c0 + shape1 V) (rows A ! i)
                   else rows A ! i)"
  define A' where "A' = A\<lparr>rows := map row [0..<shape0 A]\<rparr>"
  have len: "length (rows A) = shape0 A"
    and rowlen: "\<And>i. i < shape0 A \<Longrightarrow> length (rows A ! i) = shape1 A"
    using assms(1) by (auto simp: wf_ndarray_def)
  have eq: "setitem_slice A r0 (r0 + shape0 V) c0 (c0 + shape1 V) V = Inr A'"
    using assms(3,4) by (simp add: setitem_slice_def Let_def min_def max_def A'_def row_def)
  have rl: "length (row i) = shape1 A" if "i < shape0 A" for i
    using rowlen[OF that] assms(4) by (auto simp: row_def)
  have wf: "wf_ndarray A'"
    by (auto simp: wf_ndarray_def A'_def rl)
  have sh: "shape0 A' = shape0 A" "shape1 A' = shape1 A"
    by (simp_all add: A'_def)
  have ent: "entry A' i j =
                 (if r0 \<le> i \<and> i < r0 + shape0 V \<and> c0 \<le> j \<and> j < c0 + shape1 V
                  then entry V (i - r0) (j - c0) else entry A i j)"
    if "i < shape0 A" "j < shape1 A" for i j
  proof (cases "r0 \<le> i \<and> i < r0 + shape0 V")
    case False
    then show ?thesis using that by (auto simp: entry_def A'_def row_def)
  next
    case True
    have l: "length (rows A ! i) = shape1 A" using rowlen that by simp
    consider "j < c0" | "c0 \<le> j" "j < c0 + shape1 V" | "c0 + shape1 V \<le> j" by linarith
    then show ?thesis
    proof cases
      case 1
      then show ?thesis using True that l by (simp add: entry_def nth_append A'_def row_def)
    next
      case 2
      then have "j - c0 < shape1 V" by linarith
      then show ?thesis using True that l 2 assms(4)
        by (auto simp: entry_def nth_append A'_def row_def)
    next
      case 3
      then show ?thesis using True that l assms(4)
        by (auto simp: entry_def nth_append A'_def row_def)
    qed
  qed
  show ?thesis using eq wf sh ent by (intro exI[of _ A']) simp
qed

lemma expected_cong:
  assumes "\<And>i j. i < n \<Longrightarrow> j < m \<Longrightarrow> f i j = g i j" and "i < n" and "j < m"
  shows "expected idx jdx Vs f i j = expected idx jdx Vs g i j"
  using assms(1)
proof (induction Vs arbitrary: idx jdx f g)
  case Nil
  then show ?case using assms(2,3) by simp
next
  case (Cons V Vs)
  show ?case
    unfolding expected.simps
  proof (rule Cons.IH)
    fix i j
    assume "i < n" "j < m"
    then have "f i j = g i j" by (rule Cons.prems)
    then show "(if idx \<le> i \<and> i < idx + shape0 V \<and> jdx \<le> j \<and> j < jdx + shape1 V
                then entry V (i - idx) (j - jdx) else f i j)
             = (if idx \<le> i \<and> i < idx + shape0 V \<and> jdx \<le> j \<and> j < jdx + shape1 V
                then entry V (i - idx) (j - jdx) else g i j)"
      by simp
  qed
qed

lemma expected_before:
  "i < idx \<or> j < jdx \<Longrightarrow> expected idx jdx Vs f i j = f i j"
proof (induction Vs arbitrary: idx jdx f)
  case Nil
  then show ?case by simp
next
  case (Cons V Vs)
  have "i < idx + shape0 V \<or> j < jdx + shape1 V" using Cons.prems by linarith
  then show ?case using Cons.prems by (auto simp: Cons.IH)
qed

lemma expected_block:
  "k < length Vs \<Longrightarrow> i < shape0 (Vs ! k) \<Longrightarrow> j < shape1 (Vs ! k) \<Longrightarrow>
     expected idx jdx Vs f (idx + row_offset Vs k + i) (jdx + col_offset Vs k + j)
       = entry (Vs ! k) i j"
proof (induction Vs arbitrary: idx jdx f k)
  case Nil
  then show ?case by simp
next
  case (Cons V Vs)
  show ?case
  proof (cases k)
    case 0
    then show ?thesis using Cons.prems
      by (simp add: row_offset_def col_offset_def expected_before)
  next
    case (Suc k')
    have "expected (idx + shape0 V) (jdx + shape1 V) Vs g
            (idx + shape0 V + row_offset Vs k' + i) (jdx + shape1 V + col_offset Vs k' + j)
          = entry (Vs ! k') i j" for g
      using Cons.prems Suc by (intro Cons.IH) auto
    then show ?thesis using Suc
      by (simp add: row_offset_def col_offset_def add.assoc)
  qed
qed

lemma expected_outside:
  "(\<forall>k<length Vs. \<not> (idx + row_offset Vs k \<le> i \<and> i < idx + row_offset Vs k + shape0 (Vs ! k)
        \<and> jdx + col_offset Vs k \<le> j \<and> j < jdx + col_offset Vs k + shape1 (Vs ! k))) \<Longrightarrow>
     expected idx jdx Vs f i j = f i j"
proof (induction Vs arbitrary: idx jdx f)
  case Nil
  then show ?case by simp
next
  case (Cons V Vs)
  have 0: "\<not> (idx \<le> i \<and> i < idx + shape0 V \<and> jdx \<le> j \<and> j < jdx + shape1 V)"
    using Cons.prems[rule_format, of 0] by (simp add: row_offset_def col_offset_def)
  have "\<forall>k<length Vs. \<not> (idx + shape0 V + row_offset Vs k \<le> i
          \<and> i < idx + shape0 V + row_offset Vs k + shape0 (Vs ! k)
          \<and> jdx + shape1 V + col_offset Vs k \<le> j
          \<and> j < jdx + shape1 V + col_offset Vs k + shape1 (Vs ! k))"
  proof (intro allI impI)
    fix k assume "k < length Vs"
    then show "\<not> (idx + shape0 V + row_offset Vs k \<le> i
          \<and> i < idx + shape0 V + row_offset Vs k + shape0 (Vs ! k)
          \<and> jdx + shape1 V + col_offset Vs k \<le> j
          \<and> j < jdx + shape1 V + col_offset Vs k + shape1 (Vs ! k))"
      using Cons.prems[rule_format, of "Suc k"]
      by (simp add: row_offset_def col_offset_def add.assoc)
  qed
  then have "expected (idx + shape0 V) (jdx + shape1 V) Vs g i j = g i j" for g
    by (rule Cons.IH)
  then show ?case using 0 by auto
qed

lemma map_err_Inr: "(\<And>x. x \<in> set xs \<Longrightarrow> f x = Inr (g x)) \<Longrightarrow> map_err f xs = Inr (map g xs)"
  by (induction xs) auto

lemma astype_float64_shape:
  "shape0 (astype_float64 M) = mshape0 M" "shape1 (astype_float64 M) = mshape1 M"
  by (cases M; simp)+

lemma astype_float64_wf: "wf_matrix M \<Longrightarrow> wf_ndarray (astype_float64 M)"
  by (cases M) (auto simp: wf_ndarray_def)

lemma get_X_wf: "wf_dm h d \<Longrightarrow> get_X h d = Inr (X_of h d)"
  by (simp add: wf_dm_def get_X_def deref_def X_of_def)

lemma dm_shape_wf: "wf_dm h d \<Longrightarrow> dm_shape h d = Inr (shape0 (X64_of h d), shape1 (X64_of h d))"
  by (simp add: dm_shape_def get_X_wf X64_of_def astype_float64_shape)

lemma X64_of_wf: "wf_dm h d \<Longrightarrow> wf_ndarray (X64_of h d)"
  by (simp add: wf_dm_def X64_of_def astype_float64_wf)

lemma get_prior_mu_wf: "wf_dm h d \<Longrightarrow> get_prior_mu h d = Inr (prior_mu_of h d)"
  by (simp add: wf_dm_def get_prior_mu_def deref_def prior_mu_of_def)

lemma get_prior_sigma_wf: "wf_dm h d \<Longrightarrow> get_prior_sigma h d = Inr (prior_sigma_of h d)"
  by (simp add: wf_dm_def get_prior_sigma_def deref_def prior_sigma_of_def)

lemma get_name_wf: "wf_dm h d \<Longrightarrow> get_name h d = Inr (name_of h d)"
  by (simp add: wf_dm_def get_name_def deref_def name_of_def)

lemma vstack_loop_ok:
  assumes "\<And>d. d \<in> set ds \<Longrightarrow> wf_dm h d \<and> dm_X (objects h ! d) \<noteq> x"
    and "x < length (matrices h)" and "matrices h ! x = FloatMatrix A" and "wf_ndarray A"
    and "idx + sum_list (map (\<lambda>d. shape0 (X64_of h d)) ds) \<le> shape0 A"
    and "jdx + sum_list (map (\<lambda>d. shape1 (X64_of h d)) ds) \<le> shape1 A"
  shows "\<exists>A'. vstack_loop h x idx jdx ds
                 = (None, h\<lparr>matrices := (matrices h)[x := FloatMatrix A']\<rparr>)
           \<and> wf_ndarray A' \<and> shape0 A' = shape0 A \<and> shape1 A' = shape1 A
           \<and> (\<forall>i<shape0 A'. \<forall>j<shape1 A'. entry A' i j =
                 expected idx jdx (map (X64_of h) ds) (entry A) i j)"
  using assms
proof (induction ds arbitrary: h idx jdx A)
  case Nil
  have "h\<lparr>matrices := (matrices h)[x := FloatMatrix A]\<rparr> = h"
    using Nil.prems(3) by (metis list_update_id heap.surjective heap.update_convs(2))
  then show ?case using Nil.prems(4) by (intro exI[of _ A]) simp
next
  case (Cons d ds)
  define V where "V = X64_of h d"
  have wfd: "wf_dm h d" and neq: "dm_X (objects h ! d) \<noteq> x"
    using Cons.prems(1)[of d] by simp_all
  have wfV: "wf_ndarray V" using wfd by (simp add: X64_of_wf V_def)
  have b0: "idx + shape0 V \<le> shape0 A" and b1: "jdx + shape1 V \<le> shape1 A"
    using Cons.prems(5,6) by (simp_all add: V_def)
  obtain A1 where set: "setitem_slice A idx (idx + shape0 V) jdx (jdx + shape1 V) V = Inr A1"
    and wfA1: "wf_ndarray A1" and sh1: "shape0 A1 = shape0 A" "shape1 A1 = shape1 A"
    and ent1: "\<And>i j. i < shape0 A \<Longrightarrow> j < shape1 A \<Longrightarrow> entry A1 i j =
         (if idx \<le> i \<and> i < idx + shape0 V \<and> jdx \<le> j \<and> j < jdx + shape1 V
          then entry V (i - idx) (j - jdx) else entry A i j)"
    using setitem_slice_ok[OF Cons.prems(4) wfV b0 b1] by blast
  define h1 where "h1 = h\<lparr>matrices := (matrices h)[x := FloatMatrix A1]\<rparr>"
  have step: "vstack_step h x idx jdx d = Inr (h1, idx + shape0 V, jdx + shape1 V)"
    using set Cons.prems(2,3)
    by (simp add: vstack_step_def get_X_wf[OF wfd] dm_shape_wf[OF wfd] deref_def
        V_def[symmetric] X64_of_def[symmetric] h1_def)
  have keep: "X64_of h1 d' = X64_of h d'" "wf_dm h1 d'" "dm_X (objects h1 ! d') \<noteq> x"
    if "d' \<in> set ds" for d'
    using Cons.prems(1)[of d'] that by (simp_all add: h1_def X64_of_def X_of_def wf_dm_def)
  have x1: "matrices h1 ! x = FloatMatrix A1" "x < length (matrices h1)"
    using Cons.prems(2) by (simp_all add: h1_def)
  have maps: "map (\<lambda>d. shape0 (X64_of h1 d)) ds = map (\<lambda>d. shape0 (X64_of h d)) ds"
    "map (\<lambda>d. shape1 (X64_of h1 d)) ds = map (\<lambda>d. shape1 (X64_of h d)) ds"
    "map (X64_of h1) ds = map (X64_of h) ds"
    using keep(1) by simp_all
  have "\<exists>A'. vstack_loop h1 x (idx + shape0 V) (jdx + shape1 V) ds
                = (None, h1\<lparr>matrices := (matrices h1)[x := FloatMatrix A']\<rparr>)
           \<and> wf_ndarray A' \<and> shape0 A' = shape0 A1 \<and> shape1 A' = shape1 A1
           \<and> (\<forall>i<shape0 A'. \<forall>j<shape1 A'. entry A' i j =
                 expected (idx + shape0 V) (jdx + shape1 V) (map (X64_of h1) ds)
                   (entry A1) i j)"
  proof (rule Cons.IH)
    show "wf_dm h1 d' \<and> dm_X (objects h1 ! d') \<noteq> x" if "d' \<in> set ds" for d'
      using keep that by simp
    show "x < length (matrices h1)" by (rule x1)
    show "matrices h1 ! x = FloatMatrix A1" by (rule x1)
    show "wf_ndarray A1" by (rule wfA1)
    show "idx + shape0 V + sum_list (map (\<lambda>d. shape0 (X64_of h1 d)) ds) \<le> shape0 A1"
      using Cons.prems(5) by (simp add: maps sh1 V_def)
    show "jdx + shape1 V + sum_list (map (\<lambda>d. shape1 (X64_of h1 d)) ds) \<le> shape1 A1"
      using Cons.prems(6) by (simp add: maps sh1 V_def)
  qed
  then obtain A' where loop: "vstack_loop h1 x (idx + shape0 V) (jdx + shape1 V) ds
                = (None, h1\<lparr>matrices := (matrices h1)[x := FloatMatrix A']\<rparr>)"
    and wfA': "wf_ndarray A'" and sh': "shape0 A' = shape0 A" "shape1 A' = shape1 A"
    and ent': "\<And>i j. i < shape0 A \<Longrightarrow> j < shape1 A \<Longrightarrow> entry A' i j =
          expected (idx + shape0 V) (jdx + shape1 V) (map (X64_of h) ds) (entry A1) i j"
    by (auto simp: sh1 maps)
  have heap: "h1\<lparr>matrices := (matrices h1)[x := FloatMatrix A']\<rparr>
                = h\<lparr>matrices := (matrices h)[x := FloatMatrix A']\<rparr>"
    by (simp add: h1_def)
  have "entry A' i j = expected idx jdx (map (X64_of h) (d # ds)) (entry A) i j"
    if ij: "i < shape0 A" "j < shape1 A" for i j
  proof -
    have "entry A' i j
            = expected (idx + shape0 V) (jdx + shape1 V) (map (X64_of h) ds) (entry A1) i j"
      using ent' ij by simp
    also have "\<dots> = expected (idx + shape0 V) (jdx + shape1 V) (map (X64_of h) ds)
        (\<lambda>i j. if idx \<le> i \<and> i < idx + shape0 V \<and> jdx \<le> j \<and> j < jdx + shape1 V
          then entry V (i - idx) (j - jdx) else entry A i j) i j"
      by (rule expected_cong[where n = "shape0 A" and m = "shape1 A"]) (use ent1 ij in auto)
    finally show ?thesis unfolding V_def by simp
  qed
  then show ?case
    using step loop heap wfA' sh'
    by (intro exI[of _ A']) simp
qed

lemma wf_dm_matrices_append:
  assumes "wf_dm h d"
  shows "wf_dm (h\<lparr>matrices := matrices h @ [A]\<rparr>) d"
    and "X_of (h\<lparr>matrices := matrices h @ [A]\<rparr>) d = X_of h d"
    and "prior_mu_of (h\<lparr>matrices := matrices h @ [A]\<rparr>) d = prior_mu_of h d"
    and "prior_sigma_of (h\<lparr>matrices := matrices h @ [A]\<rparr>) d = prior_sigma_of h d"
    and "name_of (h\<lparr>matrices := matrices h @ [A]\<rparr>) d = name_of h d"
  using assms
  by (simp_all add: wf_dm_def X_of_def prior_mu_of_def prior_sigma_of_def name_of_def nth_append)

lemma wf_dm_vectors_append:
  assumes "wf_dm h d"
  shows "wf_dm (h\<lparr>vectors := vectors h @ [v]\<rparr>) d"
    and "X_of (h\<lparr>vectors := vectors h @ [v]\<rparr>) d = X_of h d"
    and "prior_mu_of (h\<lparr>vectors := vectors h @ [v]\<rparr>) d = prior_mu_of h d"
    and "prior_sigma_of (h\<lparr>vectors := vectors h @ [v]\<rparr>) d = prior_sigma_of h d"
    and "name_of (h\<lparr>vectors := vectors h @ [v]\<rparr>) d = name_of h d"
  using assms
  by (simp_all add: wf_dm_def X_of_def prior_mu_of_def prior_sigma_of_def name_of_def nth_append)

lemma np_hstack_nonempty: "vs \<noteq> [] \<Longrightarrow> \<exists>v. np_hstack vs = Inr v"
  by (simp add: np_hstack_def)

lemma vstack_result:
  assumes ne: "dms \<noteq> []" and wf: "\<And>d. d \<in> set dms \<Longrightarrow> wf_dm h d"
  shows "\<exists>A' mu sigma. vstack h dms =
           (Inr (length (objects h)),
            h\<lparr>objects := objects h @ [\<lparr>dm_X = length (matrices h), dm_name = name_of h (hd dms),
                                        dm_prior_mu = length (vectors h),
                                        dm_prior_sigma = Suc (length (vectors h))\<rparr>],
              matrices := matrices h @ [FloatMatrix A'],
              vectors := vectors h @ [mu, sigma]\<rparr>)
         \<and> np_hstack (map (prior_mu_of h) dms) = Inr mu
         \<and> np_hstack (map (prior_sigma_of h) dms) = Inr sigma
         \<and> wf_ndarray A'
         \<and> shape0 A' = sum_list (map shape0 (map (X64_of h) dms))
         \<and> shape1 A' = sum_list (map shape1 (map (X64_of h) dms))
         \<and> (\<forall>i<shape0 A'. \<forall>j<shape1 A'.
               entry A' i j = expected 0 0 (map (X64_of h) dms) (\<lambda>_ _. Fin 0) i j)"
proof -
  define n where "n = sum_list (map shape0 (map (X64_of h) dms))"
  define m where "m = sum_list (map shape1 (map (X64_of h) dms))"
  define Z :: "npfloat ndarray" where
    "Z = \<lparr>shape0 = n, shape1 = m, rows = replicate n (replicate m (Fin 0))\<rparr>"
  define x where "x = length (matrices h)"
  define h1 where "h1 = h\<lparr>matrices := matrices h @ [FloatMatrix Z]\<rparr>"
  have shapes: "map_err (dm_shape h) dms
                  = Inr (map (\<lambda>d. (shape0 (X64_of h d), shape1 (X64_of h d))) dms)"
    by (rule map_err_Inr) (simp add: dm_shape_wf wf)
  have zeros: "np_zeros (np_sum (map fst (map (\<lambda>d. (shape0 (X64_of h d), shape1 (X64_of h d))) dms)))
                        (np_sum (map snd (map (\<lambda>d. (shape0 (X64_of h d), shape1 (X64_of h d))) dms)))
                 = Inr Z"
    using ne by (simp add: np_sum_def Z_def n_def m_def comp_def)
  have Z: "wf_ndarray Z" "shape0 Z = n" "shape1 Z = m"
    "\<And>i j. i < n \<Longrightarrow> j < m \<Longrightarrow> entry Z i j = Fin 0"
    by (auto simp: Z_def wf_ndarray_def entry_def)
  have wf1: "wf_dm h1 d" "X_of h1 d = X_of h d" "prior_mu_of h1 d = prior_mu_of h d"
    "prior_sigma_of h1 d = prior_sigma_of h d" "name_of h1 d = name_of h d"
    if "d \<in> set dms" for d
    unfolding h1_def using wf_dm_matrices_append[OF wf[OF that]] by simp_all
  have x1: "matrices h1 ! x = FloatMatrix Z" "x < length (matrices h1)"
    by (simp_all add: h1_def x_def)
  have neq: "dm_X (objects h1 ! d) \<noteq> x" if "d \<in> set dms" for d
    using wf[OF that] by (simp add: wf_dm_def h1_def x_def)
  have maps: "map (\<lambda>d. shape0 (X64_of h1 d)) dms = map shape0 (map (X64_of h) dms)"
    "map (\<lambda>d. shape1 (X64_of h1 d)) dms = map shape1 (map (X64_of h) dms)"
    "map (X64_of h1) dms = map (X64_of h) dms"
    using wf1(2) by (simp_all add: X64_of_def)
  have "\<exists>A'. vstack_loop h1 x 0 0 dms
                 = (None, h1\<lparr>matrices := (matrices h1)[x := FloatMatrix A']\<rparr>)
           \<and> wf_ndarray A' \<and> shape0 A' = shape0 Z \<and> shape1 A' = shape1 Z
           \<and> (\<forall>i<shape0 A'. \<forall>j<shape1 A'. entry A' i j =
                 expected 0 0 (map (X64_of h1) dms) (entry Z) i j)"
  proof (rule vstack_loop_ok)
    show "wf_dm h1 d \<and> dm_X (objects h1 ! d) \<noteq> x" if "d \<in> set dms" for d
      using wf1(1) neq that by simp
    show "x < length (matrices h1)" by (rule x1)
    show "matrices h1 ! x = FloatMatrix Z" by (rule x1)
    show "wf_ndarray Z" by (rule Z)
    show "0 + sum_list (map (\<lambda>d. shape0 (X64_of h1 d)) dms) \<le> shape0 Z"
      by (simp add: maps Z n_def)
    show "0 + sum_list (map (\<lambda>d. shape1 (X64_of h1 d)) dms) \<le> shape1 Z"
      by (simp add: maps Z m_def)
  qed
  then obtain A' where loop: "vstack_loop h1 x 0 0 dms
        = (None, h1\<lparr>matrices := (matrices h1)[x := FloatMatrix A']\<rparr>)"
    and wfA': "wf_ndarray A'" and sh': "shape0 A' = n" "shape1 A' = m"
    and ent': "\<And>i j. i < n \<Longrightarrow> j < m \<Longrightarrow>
          entry A' i j = expected 0 0 (map (X64_of h) dms) (entry Z) i j"
    by (auto simp: Z maps)
  define h2 where "h2 = h\<lparr>matrices := matrices h @ [FloatMatrix A']\<rparr>"
  have h2: "h1\<lparr>matrices := (matrices h1)[x := FloatMatrix A']\<rparr> = h2"
    by (simp add: h1_def h2_def x_def)
  have wf2: "wf_dm h2 d" "prior_mu_of h2 d = prior_mu_of h d"
    "prior_sigma_of h2 d = prior_sigma_of h d" "name_of h2 d = name_of h d"
    if "d \<in> set dms" for d
    unfolding h2_def using wf_dm_matrices_append[OF wf[OF that]] by simp_all
  have mus: "map_err (get_prior_mu h2) dms = Inr (map (prior_mu_of h) dms)"
    using map_err_Inr[of dms "get_prior_mu h2" "prior_mu_of h2"] wf2
    by (simp add: get_prior_mu_wf cong: map_cong)
  obtain mu where mu: "np_hstack (map (prior_mu_of h) dms) = Inr mu"
    using np_hstack_nonempty[of "map (prior_mu_of h) dms"] ne by auto
  define h3 where "h3 = h2\<lparr>vectors := vectors h2 @ [mu]\<rparr>"
  have wf3: "wf_dm h3 d" "prior_sigma_of h3 d = prior_sigma_of h d" "name_of h3 d = name_of h d"
    if "d \<in> set dms" for d
    unfolding h3_def using wf_dm_vectors_append[OF wf2(1)[OF that]] wf2[OF that] by simp_all
  have sigmas: "map_err (get_prior_sigma h3) dms = Inr (map (prior_sigma_of h) dms)"
    using map_err_Inr[of dms "get_prior_sigma h3" "prior_sigma_of h3"] wf3
    by (simp add: get_prior_sigma_wf cong: map_cong)
  obtain sigma where sigma: "np_hstack (map (prior_sigma_of h) dms) = Inr sigma"
    using np_hstack_nonempty[of "map (prior_sigma_of h) dms"] ne by auto
  define h4 where "h4 = h3\<lparr>vectors := vectors h3 @ [sigma]\<rparr>"
  obtain d0 ds where dms: "dms = d0 # ds" using ne by (cases dms) auto
  have d0: "d0 \<in> set dms" by (simp add: dms)
  have "wf_dm h4 d0" "name_of h4 d0 = name_of h d0"
    unfolding h4_def using wf_dm_vectors_append[OF wf3(1)[OF d0]] wf3[OF d0] by simp_all
  then have nm: "get_name h4 d0 = Inr (name_of h d0)"
    by (simp add: get_name_wf)
  have hs: "map_err (dm_shape h) dms
              = Inr (map (\<lambda>d. (shape0 (X64_of h d), shape1 (X64_of h d))) dms)"
    by (rule shapes)
  have casedms: "(case dms of [] \<Rightarrow> a | d # _ \<Rightarrow> f d) = f d0" for a :: 'b and f
    by (simp add: dms)
  have "vstack h dms =
           (Inr (length (objects h4)),
            h4\<lparr>objects := objects h4 @ [\<lparr>dm_X = x, dm_name = name_of h d0,
                 dm_prior_mu = length (vectors h2), dm_prior_sigma = length (vectors h3)\<rparr>]\<rparr>)"
    unfolding vstack_def hs
    using zeros
    by (simp add: Let_def h1_def[symmetric] x_def[symmetric] loop h2 mus mu
        h3_def[symmetric] sigmas sigma h4_def[symmetric] casedms nm)
  moreover have "h4\<lparr>objects := objects h4 @ [\<lparr>dm_X = x, dm_name = name_of h d0,
                 dm_prior_mu = length (vectors h2), dm_prior_sigma = length (vectors h3)\<rparr>]\<rparr>
      = h\<lparr>objects := objects h @ [\<lparr>dm_X = length (matrices h), dm_name = name_of h (hd dms),
                                        dm_prior_mu = length (vectors h),
                                        dm_prior_sigma = Suc (length (vectors h))\<rparr>],
              matrices := matrices h @ [FloatMatrix A'],
              vectors := vectors h @ [mu, sigma]\<rparr>"
    by (simp add: h4_def h3_def h2_def x_def dms)
  moreover have "length (objects h4) = length (objects h)"
    by (simp add: h4_def h3_def h2_def)
  moreover have "entry A' i j = expected 0 0 (map (X64_of h) dms) (\<lambda>_ _. Fin 0) i j"
    if "i < n" "j < m" for i j
  proof -
    have "expected 0 0 (map (X64_of h) dms) (entry Z) i j
            = expected 0 0 (map (X64_of h) dms) (\<lambda>_ _. Fin 0) i j"
      by (rule expected_cong[where n = n and m = m]) (use Z that in auto)
    then show ?thesis using ent' that by simp
  qed
  ultimately show ?thesis
    using wfA' sh' mu sigma
    by (intro exI[of _ A'] exI[of _ mu] exI[of _ sigma]) (simp add: n_def m_def)
qed

lemma vstack_step_frame:
  assumes "vstack_step h x idx jdx d = Inr (h', i', j')"
  shows "objects h' = objects h \<and> vectors h' = vectors h
           \<and> length (matrices h') = length (matrices h)
           \<and> (\<forall>a. a \<noteq> x \<longrightarrow> matrices h' ! a = matrices h ! a)"
proof -
  obtain V where V: "get_X h d = Inr V"
    using assms by (cases "get_X h d") (simp_all add: vstack_step_def)
  obtain r c where rc: "dm_shape h d = Inr (r, c)"
    using assms V by (cases "dm_shape h d") (auto simp: vstack_step_def)
  obtain M where M: "deref (matrices h) x = Inr M"
    using assms V rc by (cases "deref (matrices h) x") (simp_all add: vstack_step_def)
  obtain A where A: "M = FloatMatrix A"
    using assms V rc M by (cases M) (simp_all add: vstack_step_def)
  obtain A' where A': "setitem_slice A idx (idx + r) jdx (jdx + c) (astype_float64 V) = Inr A'"
    using assms V rc M A
    by (cases "setitem_slice A idx (idx + r) jdx (jdx + c) (astype_float64 V)")
      (simp_all add: vstack_step_def)
  have "h' = h\<lparr>matrices := (matrices h)[x := FloatMatrix A']\<rparr>"
    using assms V rc M A A' by (simp add: vstack_step_def)
  then show ?thesis by simp
qed

lemma vstack_loop_frame:
  "vstack_loop h x idx jdx ds = (r, h') \<Longrightarrow>
     objects h' = objects h \<and> vectors h' = vectors h
       \<and> length (matrices h') = length (matrices h)
       \<and> (\<forall>a. a \<noteq> x \<longrightarrow> matrices h' ! a = matrices h ! a)"
proof (induction ds arbitrary: h idx jdx)
  case Nil
  then show ?case by simp
next
  case (Cons d ds)
  show ?case
  proof (cases "vstack_step h x idx jdx d")
    case (Inl e)
    then show ?thesis using Cons.prems by simp
  next
    case (Inr t)
    then obtain h1 i1 j1 where t: "t = (h1, i1, j1)" by (cases t) auto
    have "vstack_loop h1 x i1 j1 ds = (r, h')" using Cons.prems Inr t by simp
    from Cons.IH[OF this] vstack_step_frame[OF Inr[unfolded t]] show ?thesis by simp
  qed
qed

lemma vstack_tail_frame:
  assumes "(case map_err (get_prior_mu h2) dms of Inl e \<Rightarrow> (Inl e, h2) | Inr mus \<Rightarrow>
     (case np_hstack mus of Inl e \<Rightarrow> (Inl e, h2) | Inr mu \<Rightarrow>
     (let pm = length (vectors h2); h3 = h2\<lparr>vectors := vectors h2 @ [mu]\<rparr> in
     (case map_err (get_prior_sigma h3) dms of Inl e \<Rightarrow> (Inl e, h3) | Inr sigmas \<Rightarrow>
     (case np_hstack sigmas of Inl e \<Rightarrow> (Inl e, h3) | Inr sigma \<Rightarrow>
     (let ps = length (vectors h3); h4 = h3\<lparr>vectors := vectors h3 @ [sigma]\<rparr> in
     (case dms of [] \<Rightarrow> (Inl IndexError, h4) | d0 # _ \<Rightarrow>
     (case get_name h4 d0 of Inl e \<Rightarrow> (Inl e, h4) | Inr nm \<Rightarrow>
        (Inr (length (objects h4)),
         h4\<lparr>objects := objects h4
              @ [\<lparr>dm_X = x, dm_name = nm, dm_prior_mu = pm,
                   dm_prior_sigma = ps\<rparr>]\<rparr>))))))))) = (res, h')"
  shows "\<exists>os vs. objects h' = objects h2 @ os \<and> matrices h' = matrices h2
            \<and> vectors h' = vectors h2 @ vs"
  using assms
  by (auto simp: Let_def split: sum.splits list.splits)

lemma bkg_heap_wf: "wf_dm bkg_heap 0" "wf_dm bkg_heap (Suc 0)"
  by (simp_all add: wf_dm_def bkg_heap_def X_of_def wf_ndarray_def)

lemma int_heap_wf: "wf_dm int_heap 0" "wf_dm int_heap (Suc 0)"
  by (simp_all add: wf_dm_def int_heap_def X_of_def wf_ndarray_def)

lemma vstack_returns:
  assumes "dms \<noteq> []" and "\<forall>d\<in>set dms. wf_dm h d"
  shows "\<exists>h' A'. vstack h dms = (Inr (length (objects h)), h')
    \<and> X_of h' (length (objects h)) = FloatMatrix A'
    \<and> np_hstack (map (prior_mu_of h) dms) = Inr (prior_mu_of h' (length (objects h)))
    \<and> np_hstack (map (prior_sigma_of h) dms) = Inr (prior_sigma_of h' (length (objects h)))
    \<and> name_of h' (length (objects h)) = name_of h (hd dms)
    \<and> wf_ndarray A'
    \<and> shape0 A' = sum_list (map shape0 (map (X64_of h) dms))
    \<and> shape1 A' = sum_list (map shape1 (map (X64_of h) dms))
    \<and> (\<forall>i<shape0 A'. \<forall>j<shape1 A'.
           entry A' i j = expected 0 0 (map (X64_of h) dms) (\<lambda>_ _. Fin 0) i j)"
proof -
  from vstack_result[of dms h] assms
  obtain A' mu sigma where r: "vstack h dms =
           (Inr (length (objects h)),
            h\<lparr>objects := objects h @ [\<lparr>dm_X = length (matrices h), dm_name = name_of h (hd dms),
                                        dm_prior_mu = length (vectors h),
                                        dm_prior_sigma = Suc (length (vectors h))\<rparr>],
              matrices := matrices h @ [FloatMatrix A'],
              vectors := vectors h @ [mu, sigma]\<rparr>)"
    and ms: "np_hstack (map (prior_mu_of h) dms) = Inr mu"
      "np_hstack (map (prior_sigma_of h) dms) = Inr sigma"
    and A': "wf_ndarray A'" "shape0 A' = sum_list (map shape0 (map (X64_of h) dms))"
      "shape1 A' = sum_list (map shape1 (map (X64_of h) dms))"
      "\<forall>i<shape0 A'. \<forall>j<shape1 A'.
         entry A' i j = expected 0 0 (map (X64_of h) dms) (\<lambda>_ _. Fin 0) i j"
    by blast
  define h' where "h' = h\<lparr>objects := objects h @ [\<lparr>dm_X = length (matrices h),
                                        dm_name = name_of h (hd dms),
                                        dm_prior_mu = length (vectors h),
                                        dm_prior_sigma = Suc (length (vectors h))\<rparr>],
              matrices := matrices h @ [FloatMatrix A'],
              vectors := vectors h @ [mu, sigma]\<rparr>"
  have "vstack h dms = (Inr (length (objects h)), h')"
    using r by (simp add: h'_def)
  moreover have "X_of h' (length (objects h)) = FloatMatrix A'"
    by (simp add: h'_def X_of_def)
  moreover have "prior_mu_of h' (length (objects h)) = mu"
    by (simp add: h'_def prior_mu_of_def nth_append)
  moreover have "prior_sigma_of h' (length (objects h)) = sigma"
    by (simp add: h'_def prior_sigma_of_def nth_append)
  moreover have "name_of h' (length (objects h)) = name_of h (hd dms)"
    by (simp add: h'_def name_of_def)
  ultimately show ?thesis using A' ms by blast
qed

lemma bkg_heap_X:
  "X_of bkg_heap 0 = FloatMatrix \<lparr>shape0 = 2, shape1 = 2, rows = [[Fin 1, Fin 2], [Fin 3, Fin 4]]\<rparr>"
  "X_of bkg_heap (Suc 0) = FloatMatrix \<lparr>shape0 = 1, shape1 = 3, rows = [[Fin 5, Fin 6, Fin 7]]\<rparr>"
  by (simp_all add: X_of_def bkg_heap_def)

lemma bkg_heap_X64:
  "X64_of bkg_heap 0 = \<lparr>shape0 = 2, shape1 = 2, rows = [[Fin 1, Fin 2], [Fin 3, Fin 4]]\<rparr>"
  "X64_of bkg_heap (Suc 0) = \<lparr>shape0 = 1, shape1 = 3, rows = [[Fin 5, Fin 6, Fin 7]]\<rparr>"
  by (simp_all add: X64_of_def bkg_heap_X)

lemma float64_of_int_exact: "\<bar>n\<bar> < 2 ^ 53 \<Longrightarrow> float64_of_int n = Fin (of_int n)"
proof -
  assume a: "\<bar>n\<bar> < 2 ^ 53"
  then have "nat \<bar>n\<bar> < 2 ^ 53" by (simp add: nat_less_iff)
  then have "ulp64 (nat \<bar>n\<bar>) = 1" by (simp add: ulp64_def)
  then have "round_to_multiple (nat \<bar>n\<bar>) (ulp64 (nat \<bar>n\<bar>)) = nat \<bar>n\<bar>"
    by (simp add: round_to_multiple_def)
  moreover have "sgn n * int (nat \<bar>n\<bar>) = n"
    by (simp add: mult_sgn_abs)
  ultimately show ?thesis by (simp add: float64_of_int_def)
qed

lemma float64_of_int_2_53_1: "float64_of_int 9007199254740993 = Fin 9007199254740992"
  by (simp add: float64_of_int_def ulp64_def round_to_multiple_def)

lemma entry_astype_float64:
  "entry (astype_float64 (FloatMatrix A)) i j = entry A i j"
  "wf_ndarray B \<Longrightarrow> i < shape0 B \<Longrightarrow> j < shape1 B \<Longrightarrow>
     entry (astype_float64 (IntMatrix B)) i j = float64_of_int (entry B i j)"
  by (auto simp: entry_def wf_ndarray_def)

lemma same_shape_lengths:
  assumes "same_shape a b"
  shows "length a = length b"
    and "t < length a \<Longrightarrow> length (a ! t) = length (b ! t)"
    and "t < length a \<Longrightarrow> y < length (a ! t) \<Longrightarrow> length (a ! t ! y) = length (b ! t ! y)"
proof -
  show l: "length a = length b"
    using assms by (simp add: same_shape_def list_all2_lengthD)
  have p: "list_all2 (\<lambda>r s. length r = length s) (a ! t) (b ! t)" if "t < length a" for t
    using assms that by (simp add: same_shape_def list_all2_nthD)
  show "length (a ! t) = length (b ! t)" if "t < length a"
    using p[OF that] by (rule list_all2_lengthD)
  show "length (a ! t ! y) = length (b ! t ! y)" if "t < length a" "y < length (a ! t)"
    using p[OF that(1)] that(2) by (rule list_all2_nthD)
qed

lemma in_cube_same_shape:
  assumes "same_shape a b" and "in_cube a t y x"
  shows "in_cube b t y x"
proof -
  have t: "t < length a" and y: "y < length (a ! t)" and x: "x < length (a ! t ! y)"
    using assms(2) by (simp_all add: in_cube_def)
  note l = same_shape_lengths[OF assms(1)]
  have "t < length b" using t l(1) by simp
  moreover have "y < length (b ! t)" using y l(2)[OF t] by simp
  moreover have "x < length (b ! t ! y)" using x l(3)[OF t y] by simp
  ultimately show ?thesis by (simp add: in_cube_def)
qed

lemma same_shape_nan_to_num: "same_shape a b \<Longrightarrow> same_shape a (np_nan_to_num fmax b)"
  by (simp add: same_shape_def np_nan_to_num_def list_all2_map2)

lemma px_nan_to_num:
  "in_cube b t y x \<Longrightarrow> px (np_nan_to_num fmax b) t y x = nan_to_num fmax (px b t y x)"
  by (simp add: in_cube_def px_def np_nan_to_num_def)

lemma px_map2:
  assumes "same_shape a b" and "in_cube a t y x"
  shows "px (map2 (map2 (map2 f)) a b) t y x = f (px a t y x) (px b t y x)"
proof -
  have t: "t < length a" and y: "y < length (a ! t)" and x: "x < length (a ! t ! y)"
    using assms(2) by (simp_all add: in_cube_def)
  note l = same_shape_lengths[OF assms(1)]
  have "t < length b" "y < length (b ! t)" "x < length (b ! t ! y)"
    using in_cube_same_shape[OF assms] by (simp_all add: in_cube_def)
  then show ?thesis using t y x by (simp add: px_def)
qed

lemma same_shape_map2:
  assumes "same_shape a b"
  shows "same_shape a (map2 (map2 (map2 f)) a b)"
proof -
  note l = same_shape_lengths[OF assms]
  show ?thesis
    unfolding same_shape_def
  proof (rule list_all2_all_nthI)
    show "length a = length (map2 (map2 (map2 f)) a b)" using l(1) by simp
  next
    fix t assume t: "t < length a"
    show "list_all2 (\<lambda>r s. length r = length s) (a ! t) (map2 (map2 (map2 f)) a b ! t)"
    proof (rule list_all2_all_nthI)
      show "length (a ! t) = length (map2 (map2 (map2 f)) a b ! t)"
        using t l(1) l(2)[OF t] by simp
    next
      fix y assume y: "y < length (a ! t)"
      show "length (a ! t ! y) = length (map2 (map2 (map2 f)) a b ! t ! y)"
        using t y l(1) l(2)[OF t] l(3)[OF t y] by simp
    qed
  qed
qed

lemma fadd_zero_right: "fadd v (Fin 0) = v"
  by (cases v) simp_all

lemma nan_to_num_finite: "isfinite v \<Longrightarrow> nan_to_num fmax v = v"
  by (cases v) simp_all

lemma tpfs_uncorr_px:
  assumes "\<forall>tpf\<in>set tpfs. wf_tpf tpf"
  shows "\<exists>us. tpfs_uncorr fmax tpfs = Inr us \<and> length us = length tpfs \<and>
           (\<forall>n<length tpfs.
              same_shape (tpf_flux (tpfs ! n)) (tpf_flux (us ! n)) \<and>
              tpf_flux_bkg (us ! n) = tpf_flux_bkg (tpfs ! n) \<and>
              tpf_pipeline_mask (us ! n) = tpf_pipeline_mask (tpfs ! n) \<and>
              (\<forall>t y x. in_cube (tpf_flux (tpfs ! n)) t y x \<longrightarrow>
                 px (tpf_flux (us ! n)) t y x
                   = fadd (px (tpf_flux (tpfs ! n)) t y x)
                          (nan_to_num fmax (px (tpf_flux_bkg (tpfs ! n)) t y x))))"
proof -
  define g :: "TargetPixelFile \<Rightarrow> TargetPixelFile" where "g = (\<lambda>tpf. tpf\<lparr>tpf_flux :=
      map2 (map2 (map2 fadd)) (tpf_flux tpf) (np_nan_to_num fmax (tpf_flux_bkg tpf))\<rparr>)"
  have eq: "tpfs_uncorr fmax tpfs = Inr (map g tpfs)"
    unfolding tpfs_uncorr_def
    by (rule map_err_Inr)
      (use assms in \<open>simp add: tpf_add_def wf_tpf_def same_shape_nan_to_num g_def\<close>)
  have "same_shape (tpf_flux tpf) (tpf_flux (g tpf)) \<and>
        tpf_flux_bkg (g tpf) = tpf_flux_bkg tpf \<and>
        tpf_pipeline_mask (g tpf) = tpf_pipeline_mask tpf \<and>
        (\<forall>t y x. in_cube (tpf_flux tpf) t y x \<longrightarrow>
           px (tpf_flux (g tpf)) t y x
             = fadd (px (tpf_flux tpf) t y x) (nan_to_num fmax (px (tpf_flux_bkg tpf) t y x)))"
    if wf: "wf_tpf tpf" for tpf
  proof -
    have s: "same_shape (tpf_flux tpf) (tpf_flux_bkg tpf)" using wf by (simp add: wf_tpf_def)
    have s': "same_shape (tpf_flux tpf) (np_nan_to_num fmax (tpf_flux_bkg tpf))"
      using s by (rule same_shape_nan_to_num)
    have "px (tpf_flux (g tpf)) t y x
             = fadd (px (tpf_flux tpf) t y x) (nan_to_num fmax (px (tpf_flux_bkg tpf) t y x))"
      if c: "in_cube (tpf_flux tpf) t y x" for t y x
    proof -
      have "in_cube (tpf_flux_bkg tpf) t y x"
        using s c by (rule in_cube_same_shape)
      then show ?thesis
        using px_map2[OF s' c] by (simp add: g_def px_nan_to_num)
    qed
    then show ?thesis
      using same_shape_map2[OF s'] by (simp add: g_def)
  qed
  then show ?thesis
    using eq assms by (intro exI[of _ "map g tpfs"]) simp
qed

lemma example_tpf_wf: "wf_tpf example_tpf"
  by (simp add: wf_tpf_def example_tpf_def same_shape_def)








lemma foldl_fadd_zeros: "\<forall>v\<in>set vs. v = Fin 0 \<Longrightarrow> foldl fadd (Fin 0) vs = Fin 0"
  by (induction vs) simp_all

lemma np_sum_axis0_nth:
  "j < shape1 A \<Longrightarrow>
     np_sum_axis0 A ! j = foldl fadd (Fin 0) (map (\<lambda>i. entry A i j) [0..<shape0 A])"
  by (simp add: np_sum_axis0_def)

lemma kept_columns_bound: "k < length (kept_columns A) \<Longrightarrow> kept_columns A ! k < shape1 A"
  "k < length (kept_columns A) \<Longrightarrow> fne0 (np_sum_axis0 A ! (kept_columns A ! k))"
proof -
  assume "k < length (kept_columns A)"
  then have "kept_columns A ! k \<in> set (kept_columns A)" by simp
  then show "kept_columns A ! k < shape1 A" "fne0 (np_sum_axis0 A ! (kept_columns A ! k))"
    by (simp_all add: kept_columns_def)
qed

lemma star_dm_X_eq:
  "star_dm_X A = Inr \<lparr>shape0 = shape0 A, shape1 = length (kept_columns A),
                       rows = map (\<lambda>r. map (\<lambda>j. r ! j) (kept_columns A)) (rows A)\<rparr>"
proof -
  have "filter (\<lambda>j. map fne0 (np_sum_axis0 A) ! j) [0..<shape1 A] = kept_columns A"
    unfolding kept_columns_def
    by (rule filter_cong) (simp_all add: np_sum_axis0_def)
  then show ?thesis
    by (simp add: star_dm_X_def select_columns_def Let_def np_sum_axis0_def)
qed

lemma example_spline_kept: "kept_columns example_spline = [0, 2]"
  by (simp add: kept_columns_def np_sum_axis0_def fne0_def example_spline_def entry_def
      upt_rec numeral_2_eq_2 numeral_3_eq_3)












section \<open>Properties of vstack\<close>

lemma np_hstack_spec:
  assumes "np_hstack vs = Inr v"
  shows "(list_all is_int_vector vs \<longrightarrow> v = IntVector (concat (map int_values vs))) \<and>
         (list_all is_float_vector vs \<longrightarrow> v = FloatVector (concat (map float_values vs))) \<and>
         (\<not> list_all is_int_vector vs \<longrightarrow>
            v = FloatVector (concat (map vector_astype_float64 vs))) \<and>
         vlength v = sum_list (map vlength vs)"
proof -
  have ne: "vs \<noteq> []" using assms by (auto simp: np_hstack_def)
  have fl: "map vector_astype_float64 vs = map float_values vs" if "list_all is_float_vector vs"
  proof (rule map_cong[OF refl])
    fix u assume "u \<in> set vs"
    then have "is_float_vector u" using that by (simp add: list_all_iff)
    then show "vector_astype_float64 u = float_values u" by (cases u) simp_all
  qed
  have notint: "\<not> list_all is_int_vector vs" if "list_all is_float_vector vs"
  proof -
    obtain u us where "vs = u # us" using ne by (cases vs) auto
    then have "is_float_vector u" using that by simp
    then have "\<not> is_int_vector u" by (cases u) simp_all
    then show ?thesis using \<open>vs = u # us\<close> by simp
  qed
  have li: "length (concat (map int_values vs)) = sum_list (map vlength vs)"
    if "list_all is_int_vector vs"
  proof -
    have "map (length \<circ> int_values) vs = map vlength vs"
    proof (rule map_cong[OF refl])
      fix u assume "u \<in> set vs"
      then have "is_int_vector u" using that by (simp add: list_all_iff)
      then show "(length \<circ> int_values) u = vlength u" by (cases u) simp_all
    qed
    then have "map length (map int_values vs) = map vlength vs" by (simp only: map_map)
    then show ?thesis by (simp only: length_concat)
  qed
  have lf: "length (concat (map vector_astype_float64 vs)) = sum_list (map vlength vs)"
  proof -
    have "map (length \<circ> vector_astype_float64) vs = map vlength vs"
    proof (rule map_cong[OF refl])
      fix u show "(length \<circ> vector_astype_float64) u = vlength u" by (cases u) simp_all
    qed
    then have "map length (map vector_astype_float64 vs) = map vlength vs"
      by (simp only: map_map)
    then show ?thesis by (simp only: length_concat)
  qed
  show ?thesis
  proof (cases "list_all is_int_vector vs")
    case True
    then have "v = IntVector (concat (map int_values vs))"
      using assms ne by (simp add: np_hstack_def)
    then show ?thesis using True notint li by auto
  next
    case False
    then have veq: "v = FloatVector (concat (map vector_astype_float64 vs))"
      using assms ne by (simp add: np_hstack_def)
    have c2: "list_all is_float_vector vs \<longrightarrow> v = FloatVector (concat (map float_values vs))"
      by (simp add: veq fl)
    have c4: "vlength v = sum_list (map vlength vs)"
      by (simp add: veq lf)
    show ?thesis using False veq c2 c4 by blast
  qed
qed

lemma int_heap_vstack:
  "vstack int_heap [0, Suc 0] =
     (Inr 2,
      \<lparr>objects = [\<lparr>dm_X = 0, dm_name = ''counts'', dm_prior_mu = 0, dm_prior_sigma = 1\<rparr>,
                  \<lparr>dm_X = 1, dm_name = ''bkg'', dm_prior_mu = 2, dm_prior_sigma = 3\<rparr>,
                  \<lparr>dm_X = 2, dm_name = ''counts'', dm_prior_mu = 4, dm_prior_sigma = 5\<rparr>],
       matrices = [IntMatrix \<lparr>shape0 = 1, shape1 = 1, rows = [[9007199254740993]]\<rparr>,
                   FloatMatrix \<lparr>shape0 = 1, shape1 = 1, rows = [[Fin 1]]\<rparr>,
                   FloatMatrix \<lparr>shape0 = 2, shape1 = 2,
                      rows = [[Fin 9007199254740992, Fin 0], [Fin 0, Fin 1]]\<rparr>],
       vectors = [IntVector [9007199254740993], IntVector [1],
                  FloatVector [Fin 0], FloatVector [Fin 1],
                  FloatVector [Fin 9007199254740992, Fin 0],
                  FloatVector [Fin 1, Fin 1]]\<rparr>)"
  by (simp add: vstack_def int_heap_def dm_shape_def get_X_def deref_def np_sum_def
      vstack_step_def setitem_slice_def entry_def Let_def get_prior_mu_def
      get_prior_sigma_def get_name_def np_hstack_def upt_rec numeral_2_eq_2
      float64_of_int_2_53_1 float64_of_int_exact)

text \<open>
  C1, as amended. For every non-empty list of well-formed design matrices, \<open>vstack\<close>
  returns a design matrix whose \<open>X\<close> is a float64 array with as many rows as the inputs
  have together and as many columns as the inputs have together; the \<open>k\<close>-th input's
  \<open>X\<close>, converted to float64, fills the block whose row offset is the sum of the row
  counts of the inputs before it and whose column offset is the sum of their column
  counts; every entry outside these blocks is zero. The conversion keeps the entries of
  a float array and the integers below \<open>2 ^ 53\<close> in magnitude, and rounds larger
  integers to the nearest float64.
\<close>

theorem vstack_block_diagonal:
  assumes "dms \<noteq> []" and "\<forall>d\<in>set dms. wf_dm h d"
  shows "\<exists>r h' Out. vstack h dms = (Inr r, h') \<and> X_of h' r = FloatMatrix Out \<and>
           wf_ndarray Out \<and>
           shape0 Out = sum_list (map (\<lambda>d. mshape0 (X_of h d)) dms) \<and>
           shape1 Out = sum_list (map (\<lambda>d. mshape1 (X_of h d)) dms) \<and>
           (\<forall>k<length dms. \<forall>i<mshape0 (X_of h (dms ! k)). \<forall>j<mshape1 (X_of h (dms ! k)).
              entry Out (row_offset (map (X64_of h) dms) k + i)
                        (col_offset (map (X64_of h) dms) k + j)
                = entry (X64_of h (dms ! k)) i j \<and>
              (\<forall>A. X_of h (dms ! k) = FloatMatrix A \<longrightarrow>
                    entry (X64_of h (dms ! k)) i j = entry A i j) \<and>
              (\<forall>B. X_of h (dms ! k) = IntMatrix B \<longrightarrow>
                    entry (X64_of h (dms ! k)) i j = float64_of_int (entry B i j) \<and>
                    (\<bar>entry B i j\<bar> < 2 ^ 53 \<longrightarrow>
                       entry (X64_of h (dms ! k)) i j = Fin (of_int (entry B i j))))) \<and>
           (\<forall>i<shape0 Out. \<forall>j<shape1 Out.
              (\<forall>k<length dms. \<not> in_block (map (X64_of h) dms) k i j) \<longrightarrow>
                entry Out i j = Fin 0)"
proof -
  let ?Xs = "map (X64_of h) dms"
  from vstack_returns[OF assms] obtain h' A' where r: "vstack h dms = (Inr (length (objects h)), h')"
    and X: "X_of h' (length (objects h)) = FloatMatrix A'"
    and wf: "wf_ndarray A'"
    and sh: "shape0 A' = sum_list (map shape0 ?Xs)" "shape1 A' = sum_list (map shape1 ?Xs)"
    and ent: "\<And>i j. i < shape0 A' \<Longrightarrow> j < shape1 A' \<Longrightarrow>
           entry A' i j = expected 0 0 ?Xs (\<lambda>_ _. Fin 0) i j"
    by blast
  have sh64: "shape0 (X64_of h d) = mshape0 (X_of h d)" "shape1 (X64_of h d) = mshape1 (X_of h d)"
    for d by (simp_all add: X64_of_def astype_float64_shape)
  have shm: "shape0 A' = sum_list (map (\<lambda>d. mshape0 (X_of h d)) dms)"
    "shape1 A' = sum_list (map (\<lambda>d. mshape1 (X_of h d)) dms)"
    using sh by (simp_all add: comp_def sh64)
  have blocks: "entry A' (row_offset ?Xs k + i) (col_offset ?Xs k + j) = entry (X64_of h (dms ! k)) i j"
    if k: "k < length dms" and i: "i < mshape0 (X_of h (dms ! k))"
      and j: "j < mshape1 (X_of h (dms ! k))" for k i j
  proof -
    have split: "?Xs = take k ?Xs @ ?Xs ! k # drop (Suc k) ?Xs"
      by (rule id_take_nth_drop) (use k in simp)
    have "sum_list (map shape0 ?Xs)
            = row_offset ?Xs k + shape0 (?Xs ! k) + sum_list (map shape0 (drop (Suc k) ?Xs))"
      by (subst split) (simp add: row_offset_def)
    then have bi: "row_offset ?Xs k + i < shape0 A'" using i k sh by (simp add: sh64)
    have "sum_list (map shape1 ?Xs)
            = col_offset ?Xs k + shape1 (?Xs ! k) + sum_list (map shape1 (drop (Suc k) ?Xs))"
      by (subst split) (simp add: col_offset_def)
    then have bj: "col_offset ?Xs k + j < shape1 A'" using j k sh by (simp add: sh64)
    have "expected 0 0 ?Xs (\<lambda>_ _. Fin 0) (0 + row_offset ?Xs k + i) (0 + col_offset ?Xs k + j)
            = entry (?Xs ! k) i j"
      by (rule expected_block) (use k i j in \<open>simp_all add: sh64\<close>)
    then show ?thesis using ent[OF bi bj] k by simp
  qed
  have conv: "(\<forall>A. X_of h (dms ! k) = FloatMatrix A \<longrightarrow>
                    entry (X64_of h (dms ! k)) i j = entry A i j) \<and>
              (\<forall>B. X_of h (dms ! k) = IntMatrix B \<longrightarrow>
                    entry (X64_of h (dms ! k)) i j = float64_of_int (entry B i j) \<and>
                    (\<bar>entry B i j\<bar> < 2 ^ 53 \<longrightarrow>
                       entry (X64_of h (dms ! k)) i j = Fin (of_int (entry B i j))))"
    if k: "k < length dms" and i: "i < mshape0 (X_of h (dms ! k))"
      and j: "j < mshape1 (X_of h (dms ! k))" for k i j
  proof (cases "X_of h (dms ! k)")
    case (FloatMatrix A)
    then show ?thesis by (simp add: X64_of_def)
  next
    case (IntMatrix B)
    have "wf_matrix (X_of h (dms ! k))"
      using assms(2) k by (simp add: wf_dm_def)
    then have "wf_ndarray B" "i < shape0 B" "j < shape1 B"
      using i j IntMatrix by simp_all
    then have "entry (astype_float64 (IntMatrix B)) i j = float64_of_int (entry B i j)"
      by (rule entry_astype_float64(2))
    then show ?thesis using IntMatrix by (simp add: X64_of_def float64_of_int_exact)
  qed
  have zeros: "entry A' i j = Fin 0"
    if "i < shape0 A'" "j < shape1 A'" "\<forall>k<length dms. \<not> in_block ?Xs k i j" for i j
  proof -
    have "expected 0 0 ?Xs (\<lambda>_ _. Fin 0) i j = Fin 0"
      by (rule expected_outside) (use that(3) in \<open>simp add: in_block_def\<close>)
    then show ?thesis using ent that by simp
  qed
  have B: "\<forall>k<length dms. \<forall>i<mshape0 (X_of h (dms ! k)). \<forall>j<mshape1 (X_of h (dms ! k)).
              entry A' (row_offset (map (X64_of h) dms) k + i)
                       (col_offset (map (X64_of h) dms) k + j)
                = entry (X64_of h (dms ! k)) i j \<and>
              (\<forall>A. X_of h (dms ! k) = FloatMatrix A \<longrightarrow>
                    entry (X64_of h (dms ! k)) i j = entry A i j) \<and>
              (\<forall>B. X_of h (dms ! k) = IntMatrix B \<longrightarrow>
                    entry (X64_of h (dms ! k)) i j = float64_of_int (entry B i j) \<and>
                    (\<bar>entry B i j\<bar> < 2 ^ 53 \<longrightarrow>
                       entry (X64_of h (dms ! k)) i j = Fin (of_int (entry B i j))))"
  proof (intro allI impI)
    fix k i j
    assume k: "k < length dms" and i: "i < mshape0 (X_of h (dms ! k))"
      and j: "j < mshape1 (X_of h (dms ! k))"
    show "entry A' (row_offset (map (X64_of h) dms) k + i)
                       (col_offset (map (X64_of h) dms) k + j)
                = entry (X64_of h (dms ! k)) i j \<and>
              (\<forall>A. X_of h (dms ! k) = FloatMatrix A \<longrightarrow>
                    entry (X64_of h (dms ! k)) i j = entry A i j) \<and>
              (\<forall>B. X_of h (dms ! k) = IntMatrix B \<longrightarrow>
                    entry (X64_of h (dms ! k)) i j = float64_of_int (entry B i j) \<and>
                    (\<bar>entry B i j\<bar> < 2 ^ 53 \<longrightarrow>
                       entry (X64_of h (dms ! k)) i j = Fin (of_int (entry B i j))))"
      by (rule conjI[OF blocks[OF k i j] conv[OF k i j]])
  qed
  have Zr: "\<forall>i<shape0 A'. \<forall>j<shape1 A'.
              (\<forall>k<length dms. \<not> in_block (map (X64_of h) dms) k i j) \<longrightarrow>
                entry A' i j = Fin 0"
    using zeros by blast
  show ?thesis
    by (intro exI[of _ "length (objects h)"] exI[of _ h'] exI[of _ A'] conjI)
      (rule r X wf shm B Zr)+
qed

theorem vstack_block_diagonal_witness:
  "wf_dm int_heap 0 \<and> wf_dm int_heap (Suc 0) \<and>
   (\<exists>r h' Out. vstack int_heap [0, Suc 0] = (Inr r, h') \<and> X_of h' r = FloatMatrix Out \<and>
      shape0 Out = 2 \<and> shape1 Out = 2 \<and>
      entry Out 0 0 = Fin 9007199254740992 \<and> entry Out 1 1 = Fin 1 \<and> entry Out 0 1 = Fin 0)"
proof -
  have wf: "\<forall>d\<in>set [0, Suc 0]. wf_dm int_heap d"
    using int_heap_wf by simp
  have X: "X_of int_heap 0 = IntMatrix \<lparr>shape0 = 1, shape1 = 1, rows = [[9007199254740993]]\<rparr>"
    "X_of int_heap (Suc 0) = FloatMatrix \<lparr>shape0 = 1, shape1 = 1, rows = [[Fin 1]]\<rparr>"
    by (simp_all add: X_of_def int_heap_def)
  have X64: "X64_of int_heap 0 = \<lparr>shape0 = 1, shape1 = 1, rows = [[Fin 9007199254740992]]\<rparr>"
    "X64_of int_heap (Suc 0) = \<lparr>shape0 = 1, shape1 = 1, rows = [[Fin 1]]\<rparr>"
    by (simp_all add: X64_of_def X float64_of_int_2_53_1)
  from vstack_block_diagonal[of "[0, Suc 0]" int_heap, OF _ wf]
  obtain r h' Out where r: "vstack int_heap [0, Suc 0] = (Inr r, h')"
    "X_of h' r = FloatMatrix Out"
    and sh: "shape0 Out = sum_list (map (\<lambda>d. mshape0 (X_of int_heap d)) [0, Suc 0])"
      "shape1 Out = sum_list (map (\<lambda>d. mshape1 (X_of int_heap d)) [0, Suc 0])"
    and blocks: "\<And>k i j. k < length [0, Suc 0 :: nat] \<Longrightarrow>
        i < mshape0 (X_of int_heap ([0, Suc 0] ! k)) \<Longrightarrow>
        j < mshape1 (X_of int_heap ([0, Suc 0] ! k)) \<Longrightarrow>
              entry Out (row_offset (map (X64_of int_heap) [0, Suc 0]) k + i)
                        (col_offset (map (X64_of int_heap) [0, Suc 0]) k + j)
                = entry (X64_of int_heap ([0, Suc 0] ! k)) i j"
    and zeros: "\<And>i j. i < shape0 Out \<Longrightarrow> j < shape1 Out \<Longrightarrow>
              \<forall>k<length [0, Suc 0 :: nat]. \<not> in_block (map (X64_of int_heap) [0, Suc 0]) k i j \<Longrightarrow>
                entry Out i j = Fin 0"
    by (auto simp del: One_nat_def)
  have s0: "shape0 Out = 2" and s1: "shape1 Out = 2"
    using sh by (simp_all add: X)
  have "entry Out (0 + 0) (0 + 0) = Fin 9007199254740992"
    using blocks[of 0 0 0]
    by (simp add: X X64 row_offset_def col_offset_def entry_def)
  then have e0: "entry Out 0 0 = Fin 9007199254740992" by simp
  have "entry Out (1 + 0) (1 + 0) = Fin 1"
    using blocks[of "Suc 0" 0 0]
    by (simp add: X X64 row_offset_def col_offset_def entry_def)
  then have e1: "entry Out 1 1 = Fin 1" by simp
  have "\<forall>k<length [0, Suc 0 :: nat]. \<not> in_block (map (X64_of int_heap) [0, Suc 0]) k 0 1"
    by (simp add: All_less_Suc in_block_def X64 row_offset_def col_offset_def)
  then have e2: "entry Out 0 1 = Fin 0"
    using zeros[of 0 1] s0 s1 by simp
  show ?thesis using int_heap_wf r s0 s1 e0 e1 e2 by blast
qed

text \<open>
  C1 as stated has each input's values themselves in the blocks. The integer
  \<open>2 ^ 53 + 1\<close> of the first design matrix of \<open>int_heap\<close> is stored as \<open>2 ^ 53\<close>.
\<close>

theorem vstack_block_converts_to_float64:
  "X_of int_heap 0 = IntMatrix \<lparr>shape0 = 1, shape1 = 1, rows = [[9007199254740993]]\<rparr> \<and>
   fst (vstack int_heap [0, Suc 0]) = Inr 2 \<and>
   X_of (snd (vstack int_heap [0, Suc 0])) 2 =
     FloatMatrix \<lparr>shape0 = 2, shape1 = 2,
                   rows = [[Fin 9007199254740992, Fin 0], [Fin 0, Fin 1]]\<rparr> \<and>
   (9007199254740992 :: real) \<noteq> of_int 9007199254740993"
  by (simp add: int_heap_vstack X_of_def) (simp add: int_heap_def)

text \<open>
  C2, as amended. For every non-empty list of well-formed design matrices, the
  \<open>prior_mu\<close> (the \<open>prior_sigma\<close>) of the result is \<^verbatim>\<open>np.hstack\<close> of the inputs'
  \<open>prior_mu\<close> (\<open>prior_sigma\<close>) vectors: their concatenation in input order when they
  are all integer vectors or all float vectors, and otherwise the concatenation of the
  vectors converted to float64. Its length is the sum of the inputs' lengths; when each
  input's prior vectors are as long as that input has columns, the result's are as long
  as the result has columns.
\<close>

theorem vstack_priors_concatenated:
  assumes "dms \<noteq> []" and "\<forall>d\<in>set dms. wf_dm h d"
  shows "\<exists>r h'. vstack h dms = (Inr r, h') \<and>
           (list_all is_int_vector (map (prior_mu_of h) dms) \<longrightarrow>
              prior_mu_of h' r = IntVector (concat (map int_values (map (prior_mu_of h) dms)))) \<and>
           (list_all is_float_vector (map (prior_mu_of h) dms) \<longrightarrow>
              prior_mu_of h' r = FloatVector (concat (map float_values (map (prior_mu_of h) dms)))) \<and>
           (\<not> list_all is_int_vector (map (prior_mu_of h) dms) \<longrightarrow>
              prior_mu_of h' r =
                FloatVector (concat (map vector_astype_float64 (map (prior_mu_of h) dms)))) \<and>
           (list_all is_int_vector (map (prior_sigma_of h) dms) \<longrightarrow>
              prior_sigma_of h' r = IntVector (concat (map int_values (map (prior_sigma_of h) dms)))) \<and>
           (list_all is_float_vector (map (prior_sigma_of h) dms) \<longrightarrow>
              prior_sigma_of h' r =
                FloatVector (concat (map float_values (map (prior_sigma_of h) dms)))) \<and>
           (\<not> list_all is_int_vector (map (prior_sigma_of h) dms) \<longrightarrow>
              prior_sigma_of h' r =
                FloatVector (concat (map vector_astype_float64 (map (prior_sigma_of h) dms)))) \<and>
           vlength (prior_mu_of h' r) = sum_list (map (\<lambda>d. vlength (prior_mu_of h d)) dms) \<and>
           vlength (prior_sigma_of h' r) = sum_list (map (\<lambda>d. vlength (prior_sigma_of h d)) dms) \<and>
           ((\<forall>d\<in>set dms. vlength (prior_mu_of h d) = mshape1 (X_of h d) \<and>
                           vlength (prior_sigma_of h d) = mshape1 (X_of h d)) \<longrightarrow>
              vlength (prior_mu_of h' r) = mshape1 (X_of h' r) \<and>
              vlength (prior_sigma_of h' r) = mshape1 (X_of h' r))"
proof -
  from vstack_returns[OF assms]
  obtain h' A' where r: "vstack h dms = (Inr (length (objects h)), h')"
    and X: "X_of h' (length (objects h)) = FloatMatrix A'"
    and mu: "np_hstack (map (prior_mu_of h) dms) = Inr (prior_mu_of h' (length (objects h)))"
    and sigma: "np_hstack (map (prior_sigma_of h) dms)
                  = Inr (prior_sigma_of h' (length (objects h)))"
    and sh: "shape1 A' = sum_list (map shape1 (map (X64_of h) dms))"
    by blast
  note m = np_hstack_spec[OF mu]
  note s = np_hstack_spec[OF sigma]
  have cols: "mshape1 (X_of h' (length (objects h))) = sum_list (map (\<lambda>d. mshape1 (X_of h d)) dms)"
    using sh X by (simp add: comp_def X64_of_def astype_float64_shape)
  have lm: "vlength (prior_mu_of h' (length (objects h)))
              = sum_list (map (\<lambda>d. vlength (prior_mu_of h d)) dms)"
    using m by (simp add: comp_def)
  have ls: "vlength (prior_sigma_of h' (length (objects h)))
              = sum_list (map (\<lambda>d. vlength (prior_sigma_of h d)) dms)"
    using s by (simp add: comp_def)
  have len: "vlength (prior_mu_of h' (length (objects h))) = mshape1 (X_of h' (length (objects h))) \<and>
             vlength (prior_sigma_of h' (length (objects h))) = mshape1 (X_of h' (length (objects h)))"
    if "\<forall>d\<in>set dms. vlength (prior_mu_of h d) = mshape1 (X_of h d) \<and>
                      vlength (prior_sigma_of h d) = mshape1 (X_of h d)"
    using that by (simp add: lm ls cols cong: map_cong)
  show ?thesis
    using r m s lm ls len
    by (intro exI[of _ "length (objects h)"] exI[of _ h']) blast
qed

theorem vstack_priors_concatenated_witness:
  "wf_dm bkg_heap 0 \<and> wf_dm bkg_heap (Suc 0) \<and>
   (\<exists>r h'. vstack bkg_heap [0, Suc 0] = (Inr r, h') \<and>
      prior_mu_of h' r = FloatVector [Fin 10, Fin 11, Fin 14, Fin 15, Fin 16] \<and>
      prior_sigma_of h' r = FloatVector [Fin 12, Fin 13, Fin 17, Fin 18, Fin 19] \<and>
      vlength (prior_mu_of h' r) = mshape1 (X_of h' r) \<and>
      vlength (prior_sigma_of h' r) = mshape1 (X_of h' r))"
proof -
  have wf: "\<forall>d\<in>set [0, Suc 0]. wf_dm bkg_heap d"
    using bkg_heap_wf by simp
  have p: "prior_mu_of bkg_heap 0 = FloatVector [Fin 10, Fin 11]"
    "prior_mu_of bkg_heap (Suc 0) = FloatVector [Fin 14, Fin 15, Fin 16]"
    "prior_sigma_of bkg_heap 0 = FloatVector [Fin 12, Fin 13]"
    "prior_sigma_of bkg_heap (Suc 0) = FloatVector [Fin 17, Fin 18, Fin 19]"
    by (simp_all add: prior_mu_of_def prior_sigma_of_def bkg_heap_def)
  have len: "\<forall>d\<in>set [0, Suc 0]. vlength (prior_mu_of bkg_heap d) = mshape1 (X_of bkg_heap d) \<and>
                           vlength (prior_sigma_of bkg_heap d) = mshape1 (X_of bkg_heap d)"
    by (simp add: bkg_heap_X p)
  have fl: "list_all is_float_vector (map (prior_mu_of bkg_heap) [0, Suc 0])"
    "list_all is_float_vector (map (prior_sigma_of bkg_heap) [0, Suc 0])"
    by (simp_all add: p)
  from vstack_priors_concatenated[of "[0, Suc 0]" bkg_heap, OF _ wf]
  obtain r h' where r: "vstack bkg_heap [0, Suc 0] = (Inr r, h')"
    and mu: "list_all is_float_vector (map (prior_mu_of bkg_heap) [0, Suc 0]) \<longrightarrow>
              prior_mu_of h' r
                = FloatVector (concat (map float_values (map (prior_mu_of bkg_heap) [0, Suc 0])))"
    and sigma: "list_all is_float_vector (map (prior_sigma_of bkg_heap) [0, Suc 0]) \<longrightarrow>
              prior_sigma_of h' r
                = FloatVector (concat (map float_values (map (prior_sigma_of bkg_heap) [0, Suc 0])))"
    and l: "(\<forall>d\<in>set [0, Suc 0]. vlength (prior_mu_of bkg_heap d) = mshape1 (X_of bkg_heap d) \<and>
                           vlength (prior_sigma_of bkg_heap d) = mshape1 (X_of bkg_heap d)) \<longrightarrow>
              vlength (prior_mu_of h' r) = mshape1 (X_of h' r) \<and>
              vlength (prior_sigma_of h' r) = mshape1 (X_of h' r)"
    by blast
  have "prior_mu_of h' r = FloatVector [Fin 10, Fin 11, Fin 14, Fin 15, Fin 16]"
    using mu fl by (simp add: p)
  moreover have "prior_sigma_of h' r = FloatVector [Fin 12, Fin 13, Fin 17, Fin 18, Fin 19]"
    using sigma fl by (simp add: p)
  ultimately show ?thesis using bkg_heap_wf r l len by blast
qed

text \<open>
  C2 as stated has the result's \<open>prior_mu\<close> be the inputs' values, concatenated. An
  integer prior \<open>2 ^ 53 + 1\<close> beside a float prior comes out as \<open>2 ^ 53\<close>.
\<close>

theorem vstack_priors_convert_to_float64:
  "prior_mu_of int_heap 0 = IntVector [9007199254740993] \<and>
   prior_mu_of int_heap (Suc 0) = FloatVector [Fin 0] \<and>
   fst (vstack int_heap [0, Suc 0]) = Inr 2 \<and>
   prior_mu_of (snd (vstack int_heap [0, Suc 0])) 2 = FloatVector [Fin 9007199254740992, Fin 0] \<and>
   (9007199254740992 :: real) \<noteq> of_int 9007199254740993"
  by (simp add: int_heap_vstack prior_mu_of_def) (simp add: int_heap_def)

text \<open>
  C3, as amended. \<open>vstack\<close> of the empty list fails, and the store is left as it was: the
  exception is the TypeError of \<^verbatim>\<open>np.zeros\<close>, whose shape is the float that
  \<^verbatim>\<open>np.sum\<close> of an empty list gives, so \<^verbatim>\<open>dms[0].name\<close> is never reached. For every
  non-empty list of well-formed design matrices \<open>vstack\<close> returns normally.
\<close>

theorem vstack_empty_fails_nonempty_returns:
  "vstack h [] = (Inl TypeError, h) \<and>
         (dms \<noteq> [] \<and> (\<forall>d\<in>set dms. wf_dm h d) \<longrightarrow> (\<exists>r h'. vstack h dms = (Inr r, h')))"
proof -
  have "vstack h [] = (Inl TypeError, h)"
    by (simp add: vstack_def np_sum_def)
  moreover have "\<exists>r h'. vstack h dms = (Inr r, h')"
    if "dms \<noteq> []" "\<forall>d\<in>set dms. wf_dm h d"
    using vstack_returns[OF that] by blast
  ultimately show ?thesis by blast
qed

theorem vstack_empty_fails_nonempty_returns_witness:
  "vstack bkg_heap [] = (Inl TypeError, bkg_heap) \<and>
   wf_dm bkg_heap 0 \<and> wf_dm bkg_heap (Suc 0) \<and>
   (\<exists>r h'. vstack bkg_heap [0, Suc 0] = (Inr r, h'))"
proof -
  have wf: "\<forall>d\<in>set [0, Suc 0]. wf_dm bkg_heap d"
    using bkg_heap_wf by simp
  from vstack_empty_fails_nonempty_returns[of bkg_heap "[0, Suc 0]"] wf
  show ?thesis using bkg_heap_wf by simp
qed

text \<open>
  C3 as stated has the empty list fail in \<^verbatim>\<open>dms[0].name\<close>, an IndexError. On the empty
  list the exception is the TypeError that \<^verbatim>\<open>np.zeros\<close> raises before that line.
\<close>

theorem vstack_empty_not_IndexError:
  "fst (vstack bkg_heap []) = Inl TypeError \<and> fst (vstack bkg_heap []) \<noteq> Inl IndexError"
  by (simp add: vstack_def np_sum_def)

text \<open>
  C4. \<open>vstack\<close> writes to no object that existed before the call, whatever the input
  list and whether it returns or raises: every design matrix object, every array and
  every vector of the store is as before, so each input's \<open>X\<close>, \<open>prior_mu\<close>,
  \<open>prior_sigma\<close> and name are unchanged. The only array written is the local \<open>X\<close>,
  allocated by the call.
\<close>

theorem vstack_inputs_unchanged:
  assumes "vstack h dms = (res, h')"
  shows "(\<forall>a<length (objects h). objects h' ! a = objects h ! a) \<and>
         (\<forall>a<length (matrices h). matrices h' ! a = matrices h ! a) \<and>
         (\<forall>a<length (vectors h). vectors h' ! a = vectors h ! a) \<and>
         (\<forall>d\<in>set dms. wf_dm h d \<longrightarrow>
            X_of h' d = X_of h d \<and> prior_mu_of h' d = prior_mu_of h d \<and>
            prior_sigma_of h' d = prior_sigma_of h d \<and> name_of h' d = name_of h d)"
proof -
  have frame: "(\<forall>a<length (objects h). objects h' ! a = objects h ! a) \<and>
         (\<forall>a<length (matrices h). matrices h' ! a = matrices h ! a) \<and>
         (\<forall>a<length (vectors h). vectors h' ! a = vectors h ! a)"
  proof (cases "map_err (dm_shape h) dms")
    case (Inl e)
    then show ?thesis using assms by (simp add: vstack_def)
  next
    case shapes: (Inr shapes)
    show ?thesis
    proof (cases "np_zeros (np_sum (map fst shapes)) (np_sum (map snd shapes))  :: py_error + npfloat ndarray")
      case (Inl e)
      then show ?thesis using assms shapes by (simp add: vstack_def)
    next
      case zeros: (Inr Z)
      define h1 where "h1 = h\<lparr>matrices := matrices h @ [FloatMatrix Z]\<rparr>"
      obtain r2 h2 where loop: "vstack_loop h1 (length (matrices h)) 0 0 dms = (r2, h2)"
        by (cases "vstack_loop h1 (length (matrices h)) 0 0 dms") auto
      from vstack_loop_frame[OF loop]
      have f2: "objects h2 = objects h" "vectors h2 = vectors h"
        "\<And>a. a < length (matrices h) \<Longrightarrow> matrices h2 ! a = matrices h ! a"
        by (simp_all add: h1_def nth_append)
      show ?thesis
      proof (cases r2)
        case (Some e)
        then have "h' = h2"
          using assms shapes zeros loop by (simp add: vstack_def Let_def h1_def[symmetric])
        then show ?thesis using f2 by simp
      next
        case None
        have "\<exists>os vs. objects h' = objects h2 @ os \<and> matrices h' = matrices h2
            \<and> vectors h' = vectors h2 @ vs"
          by (rule vstack_tail_frame[where x = "length (matrices h)" and dms = dms and res = res])
            (use assms shapes zeros loop None in
              \<open>simp add: vstack_def Let_def h1_def[symmetric]\<close>)
        then show ?thesis using f2 by (auto simp: nth_append)
      qed
    qed
  qed
  moreover have "X_of h' d = X_of h d \<and> prior_mu_of h' d = prior_mu_of h d \<and>
            prior_sigma_of h' d = prior_sigma_of h d \<and> name_of h' d = name_of h d"
    if "wf_dm h d" for d
    using that frame
    by (simp add: wf_dm_def X_of_def prior_mu_of_def prior_sigma_of_def name_of_def)
  ultimately show ?thesis by blast
qed

theorem vstack_inputs_unchanged_witness:
  "wf_dm bkg_heap 0 \<and> wf_dm bkg_heap (Suc 0) \<and>
   X_of (snd (vstack bkg_heap [0, Suc 0])) 0 = X_of bkg_heap 0 \<and>
   prior_mu_of (snd (vstack bkg_heap [0, Suc 0])) 0 = prior_mu_of bkg_heap 0 \<and>
   prior_sigma_of (snd (vstack bkg_heap [0, Suc 0])) (Suc 0) = prior_sigma_of bkg_heap (Suc 0) \<and>
   name_of (snd (vstack bkg_heap [0, Suc 0])) (Suc 0) = name_of bkg_heap (Suc 0) \<and>
   matrices (snd (vstack bkg_heap [0, Suc 0])) ! 1 = matrices bkg_heap ! 1"
proof -
  have "vstack bkg_heap [0, Suc 0]
          = (fst (vstack bkg_heap [0, Suc 0]), snd (vstack bkg_heap [0, Suc 0]))"
    by simp
  from vstack_inputs_unchanged[OF this]
  show ?thesis using bkg_heap_wf by (simp add: bkg_heap_def)
qed

text \<open>
  C10. For every non-empty list of well-formed design matrices, the name of the result is
  the name of the first input, whatever the names of the others.
\<close>

theorem vstack_name_is_first:
  assumes "dms \<noteq> []" and "\<forall>d\<in>set dms. wf_dm h d"
  shows "\<exists>r h'. vstack h dms = (Inr r, h') \<and> name_of h' r = name_of h (hd dms)"
  using vstack_returns[OF assms] by blast

theorem vstack_name_is_first_witness:
  "wf_dm bkg_heap 0 \<and> wf_dm bkg_heap (Suc 0) \<and>
   (\<exists>r h'. vstack bkg_heap [Suc 0, 0] = (Inr r, h') \<and> name_of h' r = ''spline'')"
proof -
  have wf: "\<forall>d\<in>set [Suc 0, 0]. wf_dm bkg_heap d"
    using bkg_heap_wf by simp
  from vstack_name_is_first[of "[Suc 0, 0]" bkg_heap, OF _ wf]
  obtain r h' where "vstack bkg_heap [Suc 0, 0] = (Inr r, h')"
    and "name_of h' r = name_of bkg_heap (hd [Suc 0, 0])"
    by auto
  moreover have "name_of bkg_heap (hd [Suc 0, 0]) = ''spline''"
    by (simp add: name_of_def bkg_heap_def)
  ultimately show ?thesis using bkg_heap_wf by auto
qed

section \<open>Properties of the background restoration\<close>

text \<open>
  C5, as amended. For every list of target pixel files whose flux and background cubes
  have one shape, each flux value of the reconstructed pixel data is the corrected flux
  plus \<^verbatim>\<open>nan_to_num\<close> of the background value at the same cadence and pixel; where the
  background value is finite, that is the corrected flux plus the background value.
\<close>

theorem tpfs_uncorr_adds_nan_to_num_background:
  assumes "\<forall>tpf\<in>set tpfs. wf_tpf tpf"
  shows "\<exists>us. tpfs_uncorr fmax tpfs = Inr us \<and> length us = length tpfs \<and>
           (\<forall>n<length tpfs.
              same_shape (tpf_flux (tpfs ! n)) (tpf_flux (us ! n)) \<and>
              (\<forall>t y x. in_cube (tpf_flux (tpfs ! n)) t y x \<longrightarrow>
                 px (tpf_flux (us ! n)) t y x
                   = fadd (px (tpf_flux (tpfs ! n)) t y x)
                          (nan_to_num fmax (px (tpf_flux_bkg (tpfs ! n)) t y x)) \<and>
                 (isfinite (px (tpf_flux_bkg (tpfs ! n)) t y x) \<longrightarrow>
                    px (tpf_flux (us ! n)) t y x
                      = fadd (px (tpf_flux (tpfs ! n)) t y x)
                             (px (tpf_flux_bkg (tpfs ! n)) t y x))))"
proof -
  from tpfs_uncorr_px[OF assms, of fmax]
  obtain us where us: "tpfs_uncorr fmax tpfs = Inr us" "length us = length tpfs"
    and px: "\<And>n. n < length tpfs \<Longrightarrow>
              same_shape (tpf_flux (tpfs ! n)) (tpf_flux (us ! n)) \<and>
              (\<forall>t y x. in_cube (tpf_flux (tpfs ! n)) t y x \<longrightarrow>
                 px (tpf_flux (us ! n)) t y x
                   = fadd (px (tpf_flux (tpfs ! n)) t y x)
                          (nan_to_num fmax (px (tpf_flux_bkg (tpfs ! n)) t y x)))"
    by blast
  show ?thesis
    using us px by (intro exI[of _ us]) (simp add: nan_to_num_finite)
qed

theorem tpfs_uncorr_adds_nan_to_num_background_witness:
  "wf_tpf example_tpf \<and>
   (\<exists>us. tpfs_uncorr float32_max [example_tpf] = Inr us \<and>
      px (tpf_flux (us ! 0)) 0 0 0 = Fin 1 \<and> px (tpf_flux (us ! 0)) 0 1 2 = Fin 16)"
proof -
  have wf: "\<forall>tpf\<in>set [example_tpf]. wf_tpf tpf"
    using example_tpf_wf by simp
  from tpfs_uncorr_adds_nan_to_num_background[OF wf, of float32_max]
  obtain us where us: "tpfs_uncorr float32_max [example_tpf] = Inr us"
    and px: "\<And>t y x. in_cube (tpf_flux example_tpf) t y x \<Longrightarrow>
                 px (tpf_flux (us ! 0)) t y x
                   = fadd (px (tpf_flux example_tpf) t y x)
                          (nan_to_num float32_max (px (tpf_flux_bkg example_tpf) t y x))"
    by auto
  have "px (tpf_flux (us ! 0)) 0 0 0 = Fin 1"
    using px[of 0 0 0] by (simp add: in_cube_def px_def example_tpf_def)
  moreover have "px (tpf_flux (us ! 0)) 0 1 2 = Fin 16"
    using px[of 0 1 2] by (simp add: in_cube_def px_def example_tpf_def)
  ultimately show ?thesis using example_tpf_wf us by blast
qed

text \<open>
  C5 as stated has every reconstructed value equal flux plus background. Where the
  background is NaN the sum flux + background is NaN, and the reconstructed value is the
  flux itself.
\<close>

theorem tpfs_uncorr_not_flux_plus_background:
  "tpfs_uncorr float32_max [example_tpf] =
     Inr [example_tpf\<lparr>tpf_flux :=
            [[[Fin 1, Fin 12, Fin 13], [Fin 14, Fin 15, Fin 16], [Fin 17, Fin 18, Fin 19]]]\<rparr>] \<and>
   px [[[Fin 1, Fin 12, Fin 13], [Fin 14, Fin 15, Fin 16], [Fin 17, Fin 18, Fin 19]]] 0 0 0 = Fin 1 \<and>
   fadd (px (tpf_flux example_tpf) 0 0 0) (px (tpf_flux_bkg example_tpf) 0 0 0) = NaN"
  by (simp add: tpfs_uncorr_def tpf_add_def np_nan_to_num_def same_shape_def
      example_tpf_def px_def)

text \<open>
  C6. Where the background value is NaN, \<^verbatim>\<open>nan_to_num\<close> makes it zero, and the
  reconstructed flux is the corrected flux unchanged.
\<close>

theorem tpfs_uncorr_nan_background_keeps_flux:
  assumes "\<forall>tpf\<in>set tpfs. wf_tpf tpf"
  shows "\<exists>us. tpfs_uncorr fmax tpfs = Inr us \<and> length us = length tpfs \<and>
           (\<forall>n<length tpfs. \<forall>t y x.
              in_cube (tpf_flux (tpfs ! n)) t y x \<and>
              px (tpf_flux_bkg (tpfs ! n)) t y x = NaN \<longrightarrow>
                px (tpf_flux (us ! n)) t y x = px (tpf_flux (tpfs ! n)) t y x)"
proof -
  from tpfs_uncorr_px[OF assms, of fmax]
  obtain us where us: "tpfs_uncorr fmax tpfs = Inr us" "length us = length tpfs"
    and px: "\<And>n t y x. n < length tpfs \<Longrightarrow> in_cube (tpf_flux (tpfs ! n)) t y x \<Longrightarrow>
                 px (tpf_flux (us ! n)) t y x
                   = fadd (px (tpf_flux (tpfs ! n)) t y x)
                          (nan_to_num fmax (px (tpf_flux_bkg (tpfs ! n)) t y x))"
    by blast
  show ?thesis
    using us px by (intro exI[of _ us]) (simp add: fadd_zero_right)
qed

theorem tpfs_uncorr_nan_background_keeps_flux_witness:
  "wf_tpf example_tpf \<and> in_cube (tpf_flux example_tpf) 0 0 0 \<and>
   px (tpf_flux_bkg example_tpf) 0 0 0 = NaN \<and>
   (\<exists>us. tpfs_uncorr float32_max [example_tpf] = Inr us \<and>
      px (tpf_flux (us ! 0)) 0 0 0 = px (tpf_flux example_tpf) 0 0 0)"
proof -
  have wf: "\<forall>tpf\<in>set [example_tpf]. wf_tpf tpf"
    using example_tpf_wf by simp
  have c: "in_cube (tpf_flux example_tpf) 0 0 0" "px (tpf_flux_bkg example_tpf) 0 0 0 = NaN"
    by (simp_all add: in_cube_def px_def example_tpf_def)
  from tpfs_uncorr_nan_background_keeps_flux[OF wf, of float32_max]
  obtain us where us: "tpfs_uncorr float32_max [example_tpf] = Inr us"
    and px: "\<And>t y x. in_cube (tpf_flux example_tpf) t y x \<and>
              px (tpf_flux_bkg example_tpf) t y x = NaN \<Longrightarrow>
                px (tpf_flux (us ! 0)) t y x = px (tpf_flux example_tpf) t y x"
    by auto
  show ?thesis using example_tpf_wf c us px[of 0 0 0] by blast
qed

section \<open>Properties of the enlarged aperture\<close>





section \<open>Properties of the pruned spline matrix\<close>

text \<open>
  C8. The pruned spline matrix keeps the rows of the original and exactly the columns
  whose sum is not zero, in their original order: column \<open>k\<close> of the result is the
  \<open>k\<close>-th such column of the original. No column of the result is all zero.
\<close>

theorem star_dm_keeps_nonempty_columns:
  assumes "wf_ndarray A"
  shows "\<exists>R. star_dm_X A = Inr R \<and> wf_ndarray R \<and>
           shape0 R = shape0 A \<and> shape1 R = length (kept_columns A) \<and>
           kept_columns A =
             filter (\<lambda>j. foldl fadd (Fin 0) (map (\<lambda>i. entry A i j) [0..<shape0 A]) \<noteq> Fin 0)
                    [0..<shape1 A] \<and>
           (\<forall>i<shape0 A. \<forall>k<length (kept_columns A).
              entry R i k = entry A i (kept_columns A ! k)) \<and>
           (\<forall>k<shape1 R. \<exists>i<shape0 R. entry R i k \<noteq> Fin 0)"
proof -
  define R where "R = \<lparr>shape0 = shape0 A, shape1 = length (kept_columns A),
                       rows = map (\<lambda>r. map (\<lambda>j. r ! j) (kept_columns A)) (rows A)\<rparr>"
  have len: "length (rows A) = shape0 A" using assms by (simp add: wf_ndarray_def)
  have eq: "star_dm_X A = Inr R" by (simp add: star_dm_X_eq R_def)
  have wf: "wf_ndarray R" using len by (auto simp: wf_ndarray_def R_def)
  have sh: "shape0 R = shape0 A" "shape1 R = length (kept_columns A)"
    by (simp_all add: R_def)
  have kept: "kept_columns A =
             filter (\<lambda>j. foldl fadd (Fin 0) (map (\<lambda>i. entry A i j) [0..<shape0 A]) \<noteq> Fin 0)
                    [0..<shape1 A]"
    unfolding kept_columns_def
    by (rule filter_cong) (simp_all add: np_sum_axis0_nth fne0_def)
  have ent: "entry R i k = entry A i (kept_columns A ! k)"
    if "i < shape0 A" "k < length (kept_columns A)" for i k
    using that len by (simp add: R_def entry_def)
  have nonempty: "\<exists>i<shape0 R. entry R i k \<noteq> Fin 0" if k: "k < shape1 R" for k
  proof -
    have k': "k < length (kept_columns A)" using k sh by simp
    define j where "j = kept_columns A ! k"
    have j: "j < shape1 A" and s: "fne0 (np_sum_axis0 A ! j)"
      using kept_columns_bound[OF k'] by (simp_all add: j_def)
    have "foldl fadd (Fin 0) (map (\<lambda>i. entry A i j) [0..<shape0 A]) \<noteq> Fin 0"
      using s j by (simp add: np_sum_axis0_nth fne0_def)
    then have "\<not> (\<forall>v\<in>set (map (\<lambda>i. entry A i j) [0..<shape0 A]). v = Fin 0)"
      using foldl_fadd_zeros by blast
    then obtain i where "i < shape0 A" "entry A i j \<noteq> Fin 0" by auto
    then show ?thesis using ent[OF _ k'] sh by (auto simp: j_def)
  qed
  show ?thesis
    using eq wf sh kept ent nonempty by (intro exI[of _ R]) simp
qed

theorem star_dm_keeps_nonempty_columns_witness:
  "wf_ndarray example_spline \<and>
   (\<exists>R. star_dm_X example_spline = Inr R \<and> shape0 R = 2 \<and> shape1 R = 2 \<and>
      kept_columns example_spline = [0, 2] \<and>
      entry R 0 0 = Fin 1 \<and> entry R 1 1 = Fin (1/2))"
proof -
  have wf: "wf_ndarray example_spline"
    by (simp add: wf_ndarray_def example_spline_def)
  from star_dm_keeps_nonempty_columns[OF wf]
  obtain R where R: "star_dm_X example_spline = Inr R"
    "shape0 R = shape0 example_spline" "shape1 R = length (kept_columns example_spline)"
    and ent: "\<And>i k. i < shape0 example_spline \<Longrightarrow> k < length (kept_columns example_spline) \<Longrightarrow>
              entry R i k = entry example_spline i (kept_columns example_spline ! k)"
    by blast
  have "entry R 0 0 = Fin 1"
    using ent[of 0 0] by (simp add: example_spline_kept) (simp add: example_spline_def entry_def)
  moreover have "entry R 1 1 = Fin (1/2)"
    using ent[of 1 1] by (simp add: example_spline_kept) (simp add: example_spline_def entry_def)
  moreover have "shape0 R = 2" "shape1 R = 2"
    using R by (simp_all add: example_spline_kept) (simp add: example_spline_def)
  ultimately show ?thesis using wf R(1) example_spline_kept by blast
qed

section \<open>Properties of the flux-error fix\<close>




end
